theory Spec2Isabelle
  imports Main
begin

section \<open>JavaScript values\<close>

text \<open>
  The numbers the list pipeline computes with: \<open>parseInt\<close> returns an integer or
  \<open>NaN\<close>, and \<open>Math.max\<close>, \<open>Math.min\<close>, \<open>-\<close> and \<open>*\<close> return \<open>NaN\<close> as soon as an
  operand is \<open>NaN\<close>. Integers are unbounded here; the rounding of doubles beyond
  \<open>2^53\<close> is not modelled.
\<close>

datatype jsnum = NaN | Num int

fun Math_max :: "jsnum \<Rightarrow> jsnum \<Rightarrow> jsnum" where
  "Math_max (Num a) (Num b) = Num (max a b)"
| "Math_max _ _ = NaN"

fun Math_min :: "jsnum \<Rightarrow> jsnum \<Rightarrow> jsnum" where
  "Math_min (Num a) (Num b) = Num (min a b)"
| "Math_min _ _ = NaN"

fun js_minus :: "jsnum \<Rightarrow> jsnum \<Rightarrow> jsnum" where
  "js_minus (Num a) (Num b) = Num (a - b)"
| "js_minus _ _ = NaN"

fun js_times :: "jsnum \<Rightarrow> jsnum \<Rightarrow> jsnum" where
  "js_times (Num a) (Num b) = Num (a * b)"
| "js_times _ _ = NaN"

text \<open>
  \<open>Math.ceil(total / limit)\<close> for a document count \<open>total\<close>. The pipeline only
  ever divides by \<open>NaN\<close> or by a limit of at least 1 (lemma \<open>paginate_limit_cases\<close>);
  a divisor below 1 would give an infinity or a negative quotient, which \<open>jsnum\<close> does
  not have, and is mapped to \<open>NaN\<close>.
\<close>

fun Math_ceil_div :: "nat \<Rightarrow> jsnum \<Rightarrow> jsnum" where
  "Math_ceil_div tot (Num l) =
     (if 1 \<le> l then Num ((int tot + l - 1) div l) else NaN)"
| "Math_ceil_div tot NaN = NaN"

text \<open>Values of a parsed query string and of a MongoDB filter document.\<close>

datatype jsval =
    JStr string
  | JBool bool
  | JArr "jsval list"
  | JObj "(string \<times> jsval) list"

fun truthy :: "jsval \<Rightarrow> bool" where
  "truthy (JStr s) = (s \<noteq> [])"
| "truthy (JBool b) = b"
| "truthy (JArr xs) = True"
| "truthy (JObj kvs) = True"

fun join_comma :: "string list \<Rightarrow> string" where
  "join_comma [] = []"
| "join_comma [s] = s"
| "join_comma (s # t # ss) = s @ '','' @ join_comma (t # ss)"

text \<open>\<open>String(v)\<close>: a string is itself, an array joins its elements with commas, an
  object prints as \<open>[object Object]\<close>.\<close>

fun js_String :: "jsval \<Rightarrow> string" where
  "js_String (JStr s) = s"
| "js_String (JBool b) = (if b then ''true'' else ''false'')"
| "js_String (JArr xs) = join_comma (map js_String xs)"
| "js_String (JObj kvs) = ''[object Object]''"

text \<open>\<open>v || d\<close> for a property that may be missing and a string default.\<close>

definition or_else :: "jsval option \<Rightarrow> string \<Rightarrow> jsval" where
  "or_else v d = (case v of None \<Rightarrow> JStr d | Some x \<Rightarrow> if truthy x then x else JStr d)"

text \<open>
  A string is a list of code units below 256 (the Latin-1 range of JavaScript's
  UTF-16 strings); a character beyond it has no value of type \<open>char\<close>. The white
  space of ECMAScript (\<open>WhiteSpace\<close> and \<open>LineTerminator\<close>) in that range is TAB, LF,
  VT, FF, CR, the space and the no-break space U+00A0; \<open>parseInt\<close> and \<open>trim\<close> strip
  exactly these.
\<close>

definition is_space :: "char \<Rightarrow> bool" where
  "is_space c =
     (c \<in> set [CHR 0x09, CHR 0x0A, CHR 0x0B, CHR 0x0C, CHR 0x0D, CHR '' '', CHR 0xA0])"

definition is_digit :: "char \<Rightarrow> bool" where
  "is_digit c = (c \<in> set ''0123456789'')"

definition digit_val :: "char \<Rightarrow> nat" where
  "digit_val c = of_char c - 48"

definition digits_val :: "string \<Rightarrow> nat" where
  "digits_val ds = foldl (\<lambda>acc c. 10 * acc + digit_val c) 0 ds"

text \<open>
  \<open>parseInt(s, 10)\<close>: leading white space is skipped, one sign is read, then the
  longest run of decimal digits; with no digit there the result is \<open>NaN\<close>. Whatever
  follows the digits is ignored.
\<close>

definition parseInt :: "string \<Rightarrow> jsnum" where
  "parseInt s =
     (let t = dropWhile is_space s;
          neg = (t \<noteq> [] \<and> hd t = CHR ''-'');
          r = (if t \<noteq> [] \<and> (hd t = CHR ''-'' \<or> hd t = CHR ''+'') then tl t else t);
          ds = takeWhile is_digit r
      in if ds = [] then NaN
         else Num (if neg then - int (digits_val ds) else int (digits_val ds)))"

text \<open>\<open>String(n)\<close> for a non-negative integer: its decimal digits.\<close>

fun show_nat :: "nat \<Rightarrow> string" where
  "show_nat n =
     (if n < 10 then [char_of (48 + n)]
      else show_nat (n div 10) @ [char_of (48 + n mod 10)])"

text \<open>
  \<open>s.trim()\<close> strips the white space at both ends. \<open>s.toLowerCase()\<close> maps the
  capital letters of the range to their small letters: A to Z, and U+00C0 to U+00DE
  without the multiplication sign U+00D7, each 32 code units further.
\<close>

definition trim :: "string \<Rightarrow> string" where
  "trim s = rev (dropWhile is_space (rev (dropWhile is_space s)))"

definition lower_char :: "char \<Rightarrow> char" where
  "lower_char c =
     (if (65 \<le> (of_char c :: nat) \<and> (of_char c :: nat) \<le> 90)
         \<or> (192 \<le> (of_char c :: nat) \<and> (of_char c :: nat) \<le> 222 \<and> (of_char c :: nat) \<noteq> 215)
      then char_of ((of_char c :: nat) + 32) else c)"

definition toLowerCase :: "string \<Rightarrow> string" where
  "toLowerCase s = map lower_char s"

section \<open>utils/apiFeatures.ts\<close>

text \<open>
  A Mongoose query under construction: the filter documents given to \<open>find\<close> so
  far, in the order of the calls, the sort string, and the numbers given to
  \<open>skip\<close> and \<open>limit\<close>.
\<close>

record query =
  q_filters :: "jsval list"
  q_sort :: "string option"
  q_skip :: "jsnum option"
  q_limit :: "jsnum option"

definition find_query :: "jsval \<Rightarrow> query" where
  "find_query f = \<lparr>q_filters = [f], q_sort = None, q_skip = None, q_limit = None\<rparr>"

definition and_find :: "jsval \<Rightarrow> query \<Rightarrow> query" where
  "and_find f q = q\<lparr>q_filters := q_filters q @ [f]\<rparr>"

record ApiFeatures =
  query :: query
  reqQuery :: "(string \<times> jsval) list"
  page :: jsnum
  limit :: jsnum
  skip :: jsnum

text \<open>The constructor, with the field initialisers \<open>page = 1\<close>, \<open>limit = 10\<close>, \<open>skip = 0\<close>.\<close>

definition new_ApiFeatures :: "query \<Rightarrow> (string \<times> jsval) list \<Rightarrow> ApiFeatures" where
  "new_ApiFeatures q rq =
     \<lparr>query = q, reqQuery = rq, page = Num 1, limit = Num 10, skip = Num 0\<rparr>"

definition delete_keys :: "string list \<Rightarrow> (string \<times> jsval) list \<Rightarrow> (string \<times> jsval) list" where
  "delete_keys ks kvs = filter (\<lambda>(k, v). k \<notin> set ks) kvs"

fun set_key :: "string \<Rightarrow> jsval \<Rightarrow> (string \<times> jsval) list \<Rightarrow> (string \<times> jsval) list" where
  "set_key k v [] = [(k, v)]"
| "set_key k v ((k', v') # kvs) =
     (if k' = k then (k, v) # kvs else (k', v') # set_key k v kvs)"

text \<open>
  \<open>filter(allowedFields)\<close>: the paging, sorting and search parameters are removed,
  then every key outside a non-empty allow-list, and a truthy \<open>tag\<close> is renamed to
  \<open>tags\<close>; what is left is given to \<open>find\<close> as it is.
\<close>

definition filter_stage :: "string list \<Rightarrow> ApiFeatures \<Rightarrow> ApiFeatures" where
  "filter_stage allowedFields f =
     (let q0 = delete_keys [''page'', ''limit'', ''sort'', ''order'', ''q''] (reqQuery f);
          q1 = (if allowedFields \<noteq> [] then filter (\<lambda>(k, v). k \<in> set allowedFields) q0 else q0);
          q2 = (case map_of q1 ''tag'' of
                  Some t \<Rightarrow> if truthy t
                            then delete_keys [''tag''] (set_key ''tags'' t q1)
                            else q1
                | None \<Rightarrow> q1)
      in f\<lparr>query := and_find (JObj q2) (query f)\<rparr>)"

text \<open>
  \<open>search(fields)\<close>: with a non-blank \<open>q\<close> and at least one field, a filter that
  is the \<open>$or\<close> of a case-insensitive \<open>$regex\<close> on each field.
\<close>

definition search_stage :: "string list \<Rightarrow> ApiFeatures \<Rightarrow> ApiFeatures" where
  "search_stage flds f =
     (let q = trim (js_String (or_else (map_of (reqQuery f) ''q'') ''''))
      in if q = [] \<or> flds = [] then f
         else f\<lparr>query := and_find
                (JObj [(''$or'',
                   JArr (map (\<lambda>fld. JObj [(fld, JObj [(''$regex'', JStr q), (''$options'', JStr ''i'')])])
                           flds))])
                (query f)\<rparr>)"

definition sort_stage :: "string \<Rightarrow> ApiFeatures \<Rightarrow> ApiFeatures" where
  "sort_stage defaultSort f =
     (let sortField = js_String (or_else (map_of (reqQuery f) ''sort'') '''');
          ord = (if toLowerCase (js_String (or_else (map_of (reqQuery f) ''order'') ''desc'')) = ''asc''
                 then '''' else ''-'')
      in f\<lparr>query := (query f)\<lparr>q_sort :=
            Some (if sortField \<noteq> [] then ord @ sortField else defaultSort)\<rparr>\<rparr>)"

definition paginate :: "nat \<Rightarrow> nat \<Rightarrow> ApiFeatures \<Rightarrow> ApiFeatures" where
  "paginate defaultLimit maxLimit f =
     (let page' = Math_max (parseInt (js_String (or_else (map_of (reqQuery f) ''page'') ''1''))) (Num 1);
          limit' = Math_min
                     (Math_max (parseInt (js_String
                        (or_else (map_of (reqQuery f) ''limit'') (show_nat defaultLimit)))) (Num 1))
                     (Num (int maxLimit));
          skip' = js_times (js_minus page' (Num 1)) limit'
      in f\<lparr>page := page', limit := limit', skip := skip',
            query := (query f)\<lparr>q_skip := Some skip', q_limit := Some limit'\<rparr>\<rparr>)"

section \<open>utils/AppError.ts and the error handler\<close>

text \<open>
  What a handler can throw: an \<open>AppError\<close> with its message and status code, the
  \<open>ZodError\<close> of a failed \<open>schema.parse\<close>, the errors of Mongoose (a failed
  validator, a duplicate key of a unique index) and the error of \<open>jwt.sign\<close>.
  Only \<open>AppError\<close> has a \<open>statusCode\<close>.
\<close>

datatype error =
    AppError (message: string) (statusCode: nat)
  | ZodError
  | ValidationError
  | DuplicateKeyError
  | JwtSignError

text \<open>\<open>errorHandler\<close>: the response status is \<open>err.statusCode || 500\<close>.\<close>

fun errorHandler :: "error \<Rightarrow> nat" where
  "errorHandler (AppError m c) = (if c = 0 then 500 else c)"
| "errorHandler _ = 500"

section \<open>Configuration and libraries\<close>

record env =
  JWT_SECRET :: string
  JWT_EXPIRES_IN :: string

text \<open>The identity a token carries, and \<open>req.user\<close>.\<close>

record identity =
  userId :: string
  role :: string

text \<open>
  The packages \<open>jsonwebtoken\<close>, \<open>bcrypt\<close>, \<open>zod\<close> and \<open>bson\<close> are not part of the
  repository; the functions the server calls are parameters of the model
  (\<open>zod_email\<close> is the check of \<open>z.string().email()\<close>, \<open>ObjectId_isValid\<close> is
  \<open>Types.ObjectId.isValid\<close>). \<open>jwt_sign payload secret
  expiresIn now\<close> is \<open>None\<close> when \<open>jwt.sign\<close> throws; \<open>jwt_verify token secret now\<close>
  is \<open>None\<close> when \<open>jwt.verify\<close> throws (bad signature, malformed or expired token).
\<close>

record libs =
  jwt_sign :: "identity \<Rightarrow> string \<Rightarrow> string \<Rightarrow> nat \<Rightarrow> string option"
  jwt_verify :: "string \<Rightarrow> string \<Rightarrow> nat \<Rightarrow> identity option"
  bcrypt_hash :: "string \<Rightarrow> nat \<Rightarrow> string"
  bcrypt_compare :: "string \<Rightarrow> string \<Rightarrow> bool"
  zod_email :: "string \<Rightarrow> bool"
  ObjectId_isValid :: "string \<Rightarrow> bool"

section \<open>models: User, Author, Post\<close>

text \<open>Timestamps are natural numbers; \<open>None\<close> is \<open>null\<close>.\<close>

record User =
  u_id :: string
  u_name :: string
  u_email :: string
  u_password :: string
  u_role :: string
  u_isActive :: bool
  u_deletedAt :: "nat option"
  u_createdAt :: nat
  u_updatedAt :: nat

record Author =
  a_id :: string
  a_name :: string
  a_email :: string
  a_bio :: string
  a_status :: string
  a_deletedAt :: "nat option"
  a_createdAt :: nat
  a_updatedAt :: nat

record Post =
  p_id :: string
  p_title :: string
  p_slug :: string
  p_content :: string
  p_image :: string
  p_status :: string
  p_tags :: "string list"
  p_author :: string
  p_publishedAt :: "nat option"
  p_deletedAt :: "nat option"
  p_createdAt :: nat
  p_updatedAt :: nat

text \<open>The three collections of the database.\<close>

record store =
  users :: "User list"
  authors :: "Author list"
  posts :: "Post list"

text \<open>
  \<open>findOneAndUpdate\<close> and \<open>save\<close> change the first document that matches and
  leave the others as they are.
\<close>

fun update_first :: "('a \<Rightarrow> bool) \<Rightarrow> ('a \<Rightarrow> 'a) \<Rightarrow> 'a list \<Rightarrow> 'a list" where
  "update_first P f [] = []"
| "update_first P f (x # xs) = (if P x then f x # xs else x # update_first P f xs)"

text \<open>
  The setters of the \<open>email\<close> path (\<open>lowercase: true, trim: true\<close>); Mongoose
  applies them to a value it stores and to a value it queries by.
\<close>

definition email_setters :: "string \<Rightarrow> string" where
  "email_setters e = trim (toLowerCase e)"

subsection \<open>User\<close>

record user_input =
  ui_name :: string
  ui_email :: string
  ui_password :: string
  ui_role :: string

text \<open>The validators of \<open>userSchema\<close>, on the values after the setters.\<close>

definition User_validate :: "user_input \<Rightarrow> bool" where
  "User_validate d =
     (2 \<le> length (trim (ui_name d))
      \<and> email_setters (ui_email d) \<noteq> []
      \<and> 6 \<le> length (ui_password d)
      \<and> (ui_role d = ''super_admin'' \<or> ui_role d = ''admin''))"

text \<open>
  \<open>User.create\<close>: setters, validators, then the insert with the generated \<open>_id\<close>
  \<open>oid\<close>, which fails on a duplicate \<open>_id\<close> or a duplicate \<open>email\<close> (unique index).
  \<open>isActive\<close> and \<open>deletedAt\<close> take their defaults.
\<close>

definition User_create :: "nat \<Rightarrow> string \<Rightarrow> user_input \<Rightarrow> store \<Rightarrow> error + (store \<times> User)" where
  "User_create now oid d s =
     (if \<not> User_validate d then Inl ValidationError
      else if list_ex (\<lambda>u. u_id u = oid \<or> u_email u = email_setters (ui_email d)) (users s)
      then Inl DuplicateKeyError
      else let user = \<lparr>u_id = oid, u_name = trim (ui_name d),
                        u_email = email_setters (ui_email d),
                        u_password = ui_password d, u_role = ui_role d,
                        u_isActive = True, u_deletedAt = None,
                        u_createdAt = now, u_updatedAt = now\<rparr>
           in Inr (s\<lparr>users := users s @ [user]\<rparr>, user))"

definition User_findOne_email :: "string \<Rightarrow> store \<Rightarrow> User option" where
  "User_findOne_email e s = find (\<lambda>u. u_email u = email_setters e) (users s)"

section \<open>services/auth.service.ts\<close>

definition signToken :: "libs \<Rightarrow> env \<Rightarrow> nat \<Rightarrow> identity \<Rightarrow> string option" where
  "signToken L ev now payload = jwt_sign L payload (JWT_SECRET ev) (JWT_EXPIRES_IN ev) now"

record register_data =
  rd_name :: string
  rd_email :: string
  rd_password :: string
  rd_role :: "string option"

record login_data =
  ld_email :: string
  ld_password :: string

record public_user =
  pu_id :: string
  pu_name :: string
  pu_email :: string
  pu_role :: string

record auth_result =
  token :: string
  user :: public_user

definition auth_result_of :: "string \<Rightarrow> User \<Rightarrow> auth_result" where
  "auth_result_of t u =
     \<lparr>token = t,
      user = \<lparr>pu_id = u_id u, pu_name = u_name u, pu_email = u_email u, pu_role = u_role u\<rparr>\<rparr>"

definition register ::
  "libs \<Rightarrow> env \<Rightarrow> nat \<Rightarrow> string \<Rightarrow> store \<Rightarrow> register_data \<Rightarrow> store \<times> (error + auth_result)" where
  "register L ev now oid s d =
     (case User_findOne_email (rd_email d) s of
        Some existing \<Rightarrow> (s, Inl (AppError ''Email already in use'' 409))
      | None \<Rightarrow>
          (let hashed = bcrypt_hash L (rd_password d) 10 in
           case User_create now oid
                  \<lparr>ui_name = rd_name d, ui_email = rd_email d, ui_password = hashed,
                   ui_role = (case rd_role d of None \<Rightarrow> ''admin'' | Some r \<Rightarrow> r)\<rparr> s of
             Inl e \<Rightarrow> (s, Inl e)
           | Inr (s', u) \<Rightarrow>
               (case signToken L ev now \<lparr>userId = u_id u, role = u_role u\<rparr> of
                  None \<Rightarrow> (s', Inl JwtSignError)
                | Some t \<Rightarrow> (s', Inr (auth_result_of t u)))))"

definition login ::
  "libs \<Rightarrow> env \<Rightarrow> nat \<Rightarrow> store \<Rightarrow> login_data \<Rightarrow> store \<times> (error + auth_result)" where
  "login L ev now s d =
     (case User_findOne_email (ld_email d) s of
        None \<Rightarrow> (s, Inl (AppError ''Invalid email or password'' 401))
      | Some u \<Rightarrow>
          if \<not> bcrypt_compare L (ld_password d) (u_password u)
          then (s, Inl (AppError ''Invalid email or password'' 401))
          else (case signToken L ev now \<lparr>userId = u_id u, role = u_role u\<rparr> of
                  None \<Rightarrow> (s, Inl JwtSignError)
                | Some t \<Rightarrow> (s, Inr (auth_result_of t u))))"

section \<open>middlewares\<close>

record 'b request =
  authorization :: "string option"
  params_id :: string
  req_query :: "(string \<times> jsval) list"
  body :: 'b
  req_user :: "identity option"

subsection \<open>auth.ts\<close>

definition startsWith :: "string \<Rightarrow> string \<Rightarrow> bool" where
  "startsWith pre s = (take (length pre) s = pre)"

text \<open>\<open>s.split(" ")\<close>: the pieces between the spaces; never an empty list.\<close>

fun split_space :: "string \<Rightarrow> string list" where
  "split_space [] = [[]]"
| "split_space (c # cs) =
     (if c = CHR '' '' then [] # split_space cs
      else (case split_space cs of
              [] \<Rightarrow> [[c]]
            | w # ws \<Rightarrow> (c # w) # ws))"

text \<open>
  \<open>protect\<close>: a header that is missing, empty or not starting with \<open>Bearer \<close> is
  refused; the token is the second piece of the header (\<open>jwt.verify\<close> throws on
  a missing one); \<open>jwt.verify\<close> decides.
  Nothing else is read: neither the database nor the rest of the request.
\<close>

definition protect :: "libs \<Rightarrow> env \<Rightarrow> nat \<Rightarrow> 'b request \<Rightarrow> error + 'b request" where
  "protect L ev now req =
     (case authorization req of
        None \<Rightarrow> Inl (AppError ''Not authorized (missing token)'' 401)
      | Some auth \<Rightarrow>
          if auth = [] \<or> \<not> startsWith ''Bearer '' auth
          then Inl (AppError ''Not authorized (missing token)'' 401)
          else (case split_space auth of
                  w # t # ws \<Rightarrow>
                    (case jwt_verify L t (JWT_SECRET ev) now of
                       Some decoded \<Rightarrow>
                         Inr (req\<lparr>req_user := Some \<lparr>userId = userId decoded, role = role decoded\<rparr>\<rparr>)
                     | None \<Rightarrow> Inl (AppError ''Invalid or expired token'' 401))
                | _ \<Rightarrow> Inl (AppError ''Invalid or expired token'' 401)))"

definition adminOnly :: "'b request \<Rightarrow> error + 'b request" where
  "adminOnly req =
     (case req_user req of
        None \<Rightarrow> Inl (AppError ''Forbidden (admin only)'' 403)
      | Some u \<Rightarrow>
          if role u \<noteq> ''admin'' \<and> role u \<noteq> ''super_admin''
          then Inl (AppError ''Forbidden (admin only)'' 403)
          else Inr req)"

definition superAdminOnly :: "'b request \<Rightarrow> error + 'b request" where
  "superAdminOnly req =
     (case req_user req of
        None \<Rightarrow> Inl (AppError ''Forbidden (super admin only)'' 403)
      | Some u \<Rightarrow>
          if role u \<noteq> ''super_admin''
          then Inl (AppError ''Forbidden (super admin only)'' 403)
          else Inr req)"

subsection \<open>validate.ts, ids.ts, schemas.ts\<close>

definition validate :: "('b request \<Rightarrow> bool) \<Rightarrow> 'b request \<Rightarrow> error + 'b request" where
  "validate schema req = (if schema req then Inr req else Inl ZodError)"

definition is_hex :: "char \<Rightarrow> bool" where
  "is_hex c = (c \<in> set ''0123456789abcdefABCDEF'')"

definition objectId :: "string \<Rightarrow> bool" where
  "objectId x = (length x = 24 \<and> list_all is_hex x)"

definition idParamSchema :: "'b request \<Rightarrow> bool" where
  "idParamSchema req = objectId (params_id req)"

definition registerSchema :: "libs \<Rightarrow> register_data request \<Rightarrow> bool" where
  "registerSchema L req =
     (2 \<le> length (rd_name (body req))
      \<and> zod_email L (rd_email (body req))
      \<and> 6 \<le> length (rd_password (body req))
      \<and> (case rd_role (body req) of
            None \<Rightarrow> True
          | Some r \<Rightarrow> r = ''admin'' \<or> r = ''super_admin''))"

definition loginSchema :: "libs \<Rightarrow> login_data request \<Rightarrow> bool" where
  "loginSchema L req =
     (zod_email L (ld_email (body req)) \<and> 6 \<le> length (ld_password (body req)))"

record author_data =
  ad_name :: string
  ad_email :: string
  ad_bio :: "string option"

definition createAuthorSchema :: "libs \<Rightarrow> author_data request \<Rightarrow> bool" where
  "createAuthorSchema L req =
     (2 \<le> length (ad_name (body req)) \<and> zod_email L (ad_email (body req)))"

definition updateUserRoleSchema :: "string request \<Rightarrow> bool" where
  "updateUserRoleSchema req = (body req = ''admin'' \<or> body req = ''super_admin'')"

section \<open>Running a query\<close>

text \<open>
  How Mongoose merges the filter documents of the \<open>find\<close> calls into the
  conditions of the query, how MongoDB matches a document against these, and how it
  orders by a sort string are parameters. A \<open>skip\<close> of \<open>n\<close> drops \<open>n\<close> documents
  and a \<open>limit\<close> of \<open>n > 0\<close> keeps at most \<open>n\<close>; a limit of 0 is no limit, and the
  server reads a \<open>NaN\<close> as 0.
\<close>

record 'd engine =
  matches :: "jsval list \<Rightarrow> 'd \<Rightarrow> bool"
  sort_docs :: "string \<Rightarrow> 'd list \<Rightarrow> 'd list"

definition selected :: "'d engine \<Rightarrow> query \<Rightarrow> 'd list \<Rightarrow> 'd list" where
  "selected E q docs = filter (matches E (q_filters q)) docs"

definition countDocuments :: "'d engine \<Rightarrow> query \<Rightarrow> 'd list \<Rightarrow> nat" where
  "countDocuments E q docs = length (selected E q docs)"

fun apply_skip :: "jsnum option \<Rightarrow> 'a list \<Rightarrow> 'a list" where
  "apply_skip (Some (Num n)) xs = drop (nat n) xs"
| "apply_skip _ xs = xs"

fun apply_limit :: "jsnum option \<Rightarrow> 'a list \<Rightarrow> 'a list" where
  "apply_limit (Some (Num n)) xs = (if n = 0 then xs else take (nat \<bar>n\<bar>) xs)"
| "apply_limit _ xs = xs"

definition exec_find :: "'d engine \<Rightarrow> query \<Rightarrow> 'd list \<Rightarrow> 'd list" where
  "exec_find E q docs =
     apply_limit (q_limit q)
       (apply_skip (q_skip q)
          ((case q_sort q of None \<Rightarrow> (\<lambda>xs. xs) | Some sp \<Rightarrow> sort_docs E sp)
             (selected E q docs)))"

record 'd list_response =
  lr_page :: jsnum
  lr_limit :: jsnum
  lr_total :: nat
  lr_totalPages :: jsnum
  lr_results :: nat
  lr_data :: "'d list"

section \<open>controllers/user.controller.ts\<close>

definition users_scope :: jsval where
  "users_scope = JObj [(''isActive'', JBool True),
                       (''role'', JObj [(''$in'', JArr [JStr ''admin'', JStr ''super_admin''])])]"

definition getUsers :: "User engine \<Rightarrow> store \<Rightarrow> 'b request \<Rightarrow> User list_response" where
  "getUsers E s req =
     (let features = paginate 10 100 (sort_stage ''-createdAt'' (search_stage [''name'', ''email'']
                       (new_ApiFeatures (find_query users_scope) (req_query req))));
          countQuery = search_stage [''name'', ''email'']
                         (new_ApiFeatures (find_query users_scope) (req_query req));
          tot = countDocuments E (query countQuery) (users s);
          found = exec_find E (query features) (users s)
      in \<lparr>lr_page = page features, lr_limit = limit features, lr_total = tot,
          lr_totalPages = Math_max (Math_ceil_div tot (limit features)) (Num 1),
          lr_results = length found, lr_data = found\<rparr>)"

text \<open>
  \<open>findByIdAndUpdate\<close>: the first document with that \<open>_id\<close> is changed, whatever
  its other fields are; \<open>None\<close> when there is none. The changed document is returned
  (\<open>new: true\<close>). The projection \<open>-password\<close> only shapes the response.
\<close>

definition findOneAndUpdate :: "('a \<Rightarrow> bool) \<Rightarrow> ('a \<Rightarrow> 'a) \<Rightarrow> 'a list \<Rightarrow> 'a list \<times> 'a option" where
  "findOneAndUpdate P f xs =
     (case find P xs of
        None \<Rightarrow> (xs, None)
      | Some x \<Rightarrow> (update_first P f xs, Some (f x)))"

definition deactivateUser :: "nat \<Rightarrow> store \<Rightarrow> 'b request \<Rightarrow> store \<times> (error + User)" where
  "deactivateUser now s req =
     (case findOneAndUpdate (\<lambda>u. u_id u = params_id req)
             (\<lambda>u. u\<lparr>u_isActive := False, u_deletedAt := Some now, u_updatedAt := now\<rparr>)
             (users s) of
        (us, None) \<Rightarrow> (s\<lparr>users := us\<rparr>, Inl (AppError ''User not found'' 404))
      | (us, Some u) \<Rightarrow> (s\<lparr>users := us\<rparr>, Inr u))"

definition updateUserRole :: "nat \<Rightarrow> store \<Rightarrow> string request \<Rightarrow> store \<times> (error + User)" where
  "updateUserRole now s req =
     (case findOneAndUpdate (\<lambda>u. u_id u = params_id req)
             (\<lambda>u. u\<lparr>u_role := body req, u_updatedAt := now\<rparr>)
             (users s) of
        (us, None) \<Rightarrow> (s\<lparr>users := us\<rparr>, Inl (AppError ''User not found'' 404))
      | (us, Some u) \<Rightarrow> (s\<lparr>users := us\<rparr>, Inr u))"

section \<open>services/author.service.ts\<close>

definition Author_validate :: "author_data \<Rightarrow> bool" where
  "Author_validate d = (2 \<le> length (trim (ad_name d)) \<and> email_setters (ad_email d) \<noteq> [])"

text \<open>\<open>Author.create\<close> of the payload \<open>{...data, status: "active", deletedAt: null}\<close>.\<close>

definition createAuthor :: "nat \<Rightarrow> string \<Rightarrow> store \<Rightarrow> author_data \<Rightarrow> store \<times> (error + Author)" where
  "createAuthor now oid s d =
     (if \<not> Author_validate d then (s, Inl ValidationError)
      else if list_ex (\<lambda>a. a_id a = oid \<or> a_email a = email_setters (ad_email d)) (authors s)
      then (s, Inl DuplicateKeyError)
      else let author = \<lparr>a_id = oid, a_name = trim (ad_name d),
                          a_email = email_setters (ad_email d),
                          a_bio = (case ad_bio d of None \<Rightarrow> [] | Some b \<Rightarrow> b),
                          a_status = ''active'', a_deletedAt = None,
                          a_createdAt = now, a_updatedAt = now\<rparr>
           in (s\<lparr>authors := authors s @ [author]\<rparr>, Inr author))"

definition activePostsCount :: "store \<Rightarrow> string \<Rightarrow> nat" where
  "activePostsCount s aid =
     length (filter (\<lambda>p. p_author p = aid \<and> p_status p \<noteq> ''deleted'') (posts s))"

definition still_has_posts :: string where
  "still_has_posts =
     ''Cannot delete author: this author still has posts. Delete the author''
       @ [CHR 0x27] @ ''s posts first.''"

text \<open>
  \<open>deleteAuthor\<close>: (1) the author is looked up among the authors that are not
  deleted; (2) the posts of that author that are not deleted are counted; (3) with
  none, \<open>status\<close> and \<open>deletedAt\<close> are set and the document is saved.
\<close>

definition deleteAuthor :: "nat \<Rightarrow> store \<Rightarrow> string \<Rightarrow> store \<times> (error + Author)" where
  "deleteAuthor now s aid =
     (case find (\<lambda>a. a_id a = aid \<and> a_status a \<noteq> ''deleted'') (authors s) of
        None \<Rightarrow> (s, Inl (AppError ''Author not found'' 404))
      | Some author \<Rightarrow>
          if 0 < activePostsCount s (a_id author)
          then (s, Inl (AppError still_has_posts 400))
          else let author' = author\<lparr>a_status := ''deleted'', a_deletedAt := Some now,
                                     a_updatedAt := now\<rparr>
               in (s\<lparr>authors := update_first (\<lambda>a. a_id a = a_id author) (\<lambda>a. author') (authors s)\<rparr>,
                   Inr author'))"

definition not_deleted_scope :: jsval where
  "not_deleted_scope = JObj [(''status'', JObj [(''$ne'', JStr ''deleted'')])]"

definition getAuthors :: "Author engine \<Rightarrow> store \<Rightarrow> (string \<times> jsval) list \<Rightarrow> Author list_response" where
  "getAuthors E s rq =
     (let features = paginate 10 100 (sort_stage ''-createdAt'' (search_stage [''name'', ''email'']
                       (filter_stage [''name'', ''email'']
                          (new_ApiFeatures (find_query not_deleted_scope) rq))));
          countQuery = search_stage [''name'', ''email''] (filter_stage [''name'', ''email'']
                         (new_ApiFeatures (find_query not_deleted_scope) rq));
          tot = countDocuments E (query countQuery) (authors s);
          found = exec_find E (query features) (authors s)
      in \<lparr>lr_page = page features, lr_limit = limit features, lr_total = tot,
          lr_totalPages = Math_max (Math_ceil_div tot (limit features)) (Num 1),
          lr_results = length found, lr_data = found\<rparr>)"

section \<open>services/post.service.ts\<close>

definition DEFAULT_POST_IMAGE :: string where
  "DEFAULT_POST_IMAGE =
     ''https://images.unsplash.com/photo-1486312338219-ce68d2c6f44d?auto=format&fit=crop&w=1200&q=80''"

text \<open>
  The payload of a post request: the paths of \<open>postSchema\<close>, each present or not.
  For the two dates, \<open>Some None\<close> is an explicit \<open>null\<close>.
\<close>

record post_payload =
  pl_title :: "string option"
  pl_slug :: "string option"
  pl_content :: "string option"
  pl_image :: "string option"
  pl_status :: "string option"
  pl_tags :: "string list option"
  pl_author :: "string option"
  pl_publishedAt :: "nat option option"
  pl_deletedAt :: "nat option option"

definition slug_setters :: "string \<Rightarrow> string" where
  "slug_setters x = trim (toLowerCase x)"

definition status_enum :: "string \<Rightarrow> bool" where
  "status_enum st = (st = ''draft'' \<or> st = ''published'' \<or> st = ''deleted'')"

text \<open>\<open>payload.image?.trim() || DEFAULT_POST_IMAGE\<close>\<close>

definition image_or_default :: "string option \<Rightarrow> string" where
  "image_or_default i =
     (case i of None \<Rightarrow> DEFAULT_POST_IMAGE
      | Some x \<Rightarrow> if trim x = [] then DEFAULT_POST_IMAGE else trim x)"

text \<open>The validators of \<open>postSchema\<close> on a new document.\<close>

definition Post_validate :: "libs \<Rightarrow> post_payload \<Rightarrow> bool" where
  "Post_validate L pl =
     ((case pl_title pl of None \<Rightarrow> False | Some t \<Rightarrow> 3 \<le> length (trim t))
      \<and> (case pl_slug pl of None \<Rightarrow> False | Some x \<Rightarrow> slug_setters x \<noteq> [])
      \<and> (case pl_content pl of None \<Rightarrow> False | Some c \<Rightarrow> 10 \<le> length c)
      \<and> (case pl_status pl of None \<Rightarrow> True | Some st \<Rightarrow> status_enum st)
      \<and> (case pl_author pl of None \<Rightarrow> False | Some a \<Rightarrow> ObjectId_isValid L a))"

text \<open>\<open>Post.create\<close>: setters, defaults, validators, then the insert (unique \<open>_id\<close>
  and \<open>slug\<close>).\<close>

definition Post_create :: "libs \<Rightarrow> nat \<Rightarrow> string \<Rightarrow> post_payload \<Rightarrow> store \<Rightarrow> error + (store \<times> Post)" where
  "Post_create L now oid pl s =
     (case (pl_title pl, pl_slug pl, pl_content pl, pl_author pl) of
        (Some t, Some x, Some c, Some a) \<Rightarrow>
          if \<not> Post_validate L pl then Inl ValidationError
          else if list_ex (\<lambda>p. p_id p = oid \<or> p_slug p = slug_setters x) (posts s)
          then Inl DuplicateKeyError
          else let post = \<lparr>p_id = oid, p_title = trim t, p_slug = slug_setters x, p_content = c,
                            p_image = (case pl_image pl of None \<Rightarrow> DEFAULT_POST_IMAGE | Some i \<Rightarrow> trim i),
                            p_status = (case pl_status pl of None \<Rightarrow> ''draft'' | Some st \<Rightarrow> st),
                            p_tags = (case pl_tags pl of None \<Rightarrow> [] | Some ts \<Rightarrow> ts),
                            p_author = a,
                            p_publishedAt = (case pl_publishedAt pl of None \<Rightarrow> None | Some d \<Rightarrow> d),
                            p_deletedAt = (case pl_deletedAt pl of None \<Rightarrow> None | Some d \<Rightarrow> d),
                            p_createdAt = now, p_updatedAt = now\<rparr>
               in Inr (s\<lparr>posts := posts s @ [post]\<rparr>, post)
      | _ \<Rightarrow> Inl ValidationError)"

definition cannot_create_deleted :: string where
  "cannot_create_deleted =
     ''Cannot create a post with status '' @ [CHR 0x27] @ ''deleted'' @ [CHR 0x27]"

definition createPost ::
  "libs \<Rightarrow> nat \<Rightarrow> string \<Rightarrow> store \<Rightarrow> post_payload \<Rightarrow> store \<times> (error + Post option)" where
  "createPost L now oid s d =
     (if pl_status d = Some ''deleted''
      then (s, Inl (AppError cannot_create_deleted 400))
      else
        let p1 = (if pl_status d = Some ''published''
                     \<and> (pl_publishedAt d = None \<or> pl_publishedAt d = Some None)
                  then d\<lparr>pl_publishedAt := Some (Some now)\<rparr> else d);
            p2 = (if pl_status p1 = Some ''draft'' then p1\<lparr>pl_publishedAt := Some None\<rparr> else p1);
            p3 = p2\<lparr>pl_deletedAt := Some None, pl_image := Some (image_or_default (pl_image p2))\<rparr>
        in case Post_create L now oid p3 s of
             Inl e \<Rightarrow> (s, Inl e)
           | Inr (s', post) \<Rightarrow> (s', Inr (find (\<lambda>p. p_id p = p_id post) (posts s'))))"

text \<open>The update validators (\<open>runValidators: true\<close>) on the paths the update sets.\<close>

definition Post_validate_update :: "libs \<Rightarrow> post_payload \<Rightarrow> bool" where
  "Post_validate_update L pl =
     ((case pl_title pl of None \<Rightarrow> True | Some t \<Rightarrow> 3 \<le> length (trim t))
      \<and> (case pl_slug pl of None \<Rightarrow> True | Some x \<Rightarrow> slug_setters x \<noteq> [])
      \<and> (case pl_content pl of None \<Rightarrow> True | Some c \<Rightarrow> 10 \<le> length c)
      \<and> (case pl_status pl of None \<Rightarrow> True | Some st \<Rightarrow> status_enum st)
      \<and> (case pl_author pl of None \<Rightarrow> True | Some a \<Rightarrow> ObjectId_isValid L a))"

text \<open>The update \<open>{$set: payload}\<close> on one document; \<open>updatedAt\<close> is stamped.\<close>

definition apply_payload :: "nat \<Rightarrow> post_payload \<Rightarrow> Post \<Rightarrow> Post" where
  "apply_payload now pl p =
     p\<lparr>p_title := (case pl_title pl of None \<Rightarrow> p_title p | Some t \<Rightarrow> trim t),
       p_slug := (case pl_slug pl of None \<Rightarrow> p_slug p | Some x \<Rightarrow> slug_setters x),
       p_content := (case pl_content pl of None \<Rightarrow> p_content p | Some c \<Rightarrow> c),
       p_image := (case pl_image pl of None \<Rightarrow> p_image p | Some i \<Rightarrow> trim i),
       p_status := (case pl_status pl of None \<Rightarrow> p_status p | Some st \<Rightarrow> st),
       p_tags := (case pl_tags pl of None \<Rightarrow> p_tags p | Some ts \<Rightarrow> ts),
       p_author := (case pl_author pl of None \<Rightarrow> p_author p | Some a \<Rightarrow> a),
       p_publishedAt := (case pl_publishedAt pl of None \<Rightarrow> p_publishedAt p | Some d \<Rightarrow> d),
       p_deletedAt := (case pl_deletedAt pl of None \<Rightarrow> p_deletedAt p | Some d \<Rightarrow> d),
       p_updatedAt := now\<rparr>"

definition updatePost ::
  "libs \<Rightarrow> nat \<Rightarrow> store \<Rightarrow> string \<Rightarrow> post_payload \<Rightarrow> store \<times> (error + Post)" where
  "updatePost L now s pid d =
     (let p1 = (if pl_image d \<noteq> None then d\<lparr>pl_image := Some (image_or_default (pl_image d))\<rparr> else d);
          p2 = (if pl_status p1 = Some ''deleted''
                then p1\<lparr>pl_deletedAt := Some (Some now), pl_publishedAt := Some None\<rparr> else p1);
          p3 = (if pl_status p2 = Some ''published''
                then p2\<lparr>pl_publishedAt := Some (Some now), pl_deletedAt := Some None\<rparr> else p2);
          p4 = (if pl_status p3 = Some ''draft''
                then p3\<lparr>pl_publishedAt := Some None, pl_deletedAt := Some None\<rparr> else p3)
      in if \<not> Post_validate_update L p4 then (s, Inl ValidationError)
         else (case find (\<lambda>p. p_id p = pid \<and> p_status p \<noteq> ''deleted'') (posts s) of
                 None \<Rightarrow> (s, Inl (AppError ''Post not found'' 404))
               | Some p \<Rightarrow>
                   if (case pl_slug p4 of
                         None \<Rightarrow> False
                       | Some x \<Rightarrow> list_ex (\<lambda>q. p_id q \<noteq> p_id p \<and> p_slug q = slug_setters x) (posts s))
                   then (s, Inl DuplicateKeyError)
                   else (s\<lparr>posts := update_first (\<lambda>p. p_id p = pid \<and> p_status p \<noteq> ''deleted'')
                                      (apply_payload now p4) (posts s)\<rparr>,
                         Inr (apply_payload now p4 p))))"

definition deletePost :: "nat \<Rightarrow> store \<Rightarrow> string \<Rightarrow> store \<times> (error + Post)" where
  "deletePost now s pid =
     (case findOneAndUpdate (\<lambda>p. p_id p = pid \<and> p_status p \<noteq> ''deleted'')
             (\<lambda>p. p\<lparr>p_status := ''deleted'', p_deletedAt := Some now, p_publishedAt := None,
                     p_updatedAt := now\<rparr>)
             (posts s) of
        (ps, None) \<Rightarrow> (s\<lparr>posts := ps\<rparr>, Inl (AppError ''Post not found'' 404))
      | (ps, Some p) \<Rightarrow> (s\<lparr>posts := ps\<rparr>, Inr p))"

definition getPosts :: "Post engine \<Rightarrow> store \<Rightarrow> (string \<times> jsval) list \<Rightarrow> Post list_response" where
  "getPosts E s rq0 =
     (let rq = (case map_of rq0 ''authorId'' of
                  None \<Rightarrow> rq0
                | Some a \<Rightarrow>
                    if truthy a \<and> \<not> (case map_of rq0 ''author'' of None \<Rightarrow> False | Some x \<Rightarrow> truthy x)
                    then set_key ''author'' a rq0 else rq0);
          features = paginate 10 100 (sort_stage ''-createdAt''
                       (search_stage [''title'', ''content'', ''slug'']
                          (filter_stage [''status'', ''author'', ''tag'']
                             (new_ApiFeatures (find_query not_deleted_scope) rq))));
          countQuery = search_stage [''title'', ''content'', ''slug'']
                         (filter_stage [''status'', ''author'', ''tag'']
                            (new_ApiFeatures (find_query not_deleted_scope) rq));
          tot = countDocuments E (query countQuery) (posts s);
          found = exec_find E (query features) (posts s)
      in \<lparr>lr_page = page features, lr_limit = limit features, lr_total = tot,
          lr_totalPages = Math_max (Math_ceil_div tot (limit features)) (Num 1),
          lr_results = length found, lr_data = found\<rparr>)"

definition author_scope :: "string \<Rightarrow> jsval" where
  "author_scope aid = JObj [(''author'', JStr aid), (''status'', JObj [(''$ne'', JStr ''deleted'')])]"

definition getPostsByAuthor ::
  "libs \<Rightarrow> Post engine \<Rightarrow> store \<Rightarrow> string \<Rightarrow> (string \<times> jsval) list
     \<Rightarrow> error + (string \<times> Post list_response)" where
  "getPostsByAuthor L E s authorId rq =
     (if \<not> ObjectId_isValid L authorId then Inl (AppError ''Invalid author id'' 400)
      else
        let features = paginate 10 100 (sort_stage ''-createdAt''
                         (search_stage [''title'', ''content'', ''slug'']
                            (filter_stage [''status'', ''tag'']
                               (new_ApiFeatures (find_query (author_scope authorId)) rq))));
            countQuery = search_stage [''title'', ''content'', ''slug'']
                           (filter_stage [''status'', ''tag'']
                              (new_ApiFeatures (find_query (author_scope authorId)) rq));
            tot = countDocuments E (query countQuery) (posts s);
            found = exec_find E (query features) (posts s)
        in Inr (authorId,
                \<lparr>lr_page = page features, lr_limit = limit features, lr_total = tot,
                 lr_totalPages = Math_max (Math_ceil_div tot (limit features)) (Num 1),
                 lr_results = length found, lr_data = found\<rparr>))"

text \<open>The payload as \<open>updatePost\<close> hands it to \<open>findOneAndUpdate\<close>.\<close>

definition update_payload :: "nat \<Rightarrow> post_payload \<Rightarrow> post_payload" where
  "update_payload now d =
     (let p1 = (if pl_image d \<noteq> None then d\<lparr>pl_image := Some (image_or_default (pl_image d))\<rparr> else d);
          p2 = (if pl_status p1 = Some ''deleted''
                then p1\<lparr>pl_deletedAt := Some (Some now), pl_publishedAt := Some None\<rparr> else p1);
          p3 = (if pl_status p2 = Some ''published''
                then p2\<lparr>pl_publishedAt := Some (Some now), pl_deletedAt := Some None\<rparr> else p2);
          p4 = (if pl_status p3 = Some ''draft''
                then p3\<lparr>pl_publishedAt := Some None, pl_deletedAt := Some None\<rparr> else p3)
      in p4)"

section \<open>routes\<close>

text \<open>
  A route is its middlewares in order and then its controller. A middleware that
  throws ends the request with that error; otherwise \<open>next()\<close> runs what follows.
  An error thrown by a controller reaches the error handler in the same way.
\<close>

fun run_mw :: "store \<Rightarrow> error + 'b request \<Rightarrow> ('b request \<Rightarrow> store \<times> (error + 'r))
                 \<Rightarrow> store \<times> (error + 'r)" where
  "run_mw s (Inl e) k = (s, Inl e)"
| "run_mw s (Inr req) k = k req"

subsection \<open>auth.routes.ts\<close>

definition route_register ::
  "libs \<Rightarrow> env \<Rightarrow> nat \<Rightarrow> string \<Rightarrow> store \<Rightarrow> register_data request
     \<Rightarrow> store \<times> (error + auth_result)" where
  "route_register L ev now oid s req =
     run_mw s (validate (registerSchema L) req) (\<lambda>r. register L ev now oid s (body r))"

definition route_login ::
  "libs \<Rightarrow> env \<Rightarrow> nat \<Rightarrow> store \<Rightarrow> login_data request \<Rightarrow> store \<times> (error + auth_result)" where
  "route_login L ev now s req =
     run_mw s (validate (loginSchema L) req) (\<lambda>r. login L ev now s (body r))"

subsection \<open>user.routes.ts\<close>

definition route_getUsers ::
  "libs \<Rightarrow> env \<Rightarrow> nat \<Rightarrow> User engine \<Rightarrow> store \<Rightarrow> 'b request
     \<Rightarrow> store \<times> (error + User list_response)" where
  "route_getUsers L ev now E s req =
     run_mw s (protect L ev now req) (\<lambda>r1.
     run_mw s (superAdminOnly r1) (\<lambda>r2. (s, Inr (getUsers E s r2))))"

definition route_deactivateUser ::
  "libs \<Rightarrow> env \<Rightarrow> nat \<Rightarrow> store \<Rightarrow> 'b request \<Rightarrow> store \<times> (error + User)" where
  "route_deactivateUser L ev now s req =
     run_mw s (protect L ev now req) (\<lambda>r1.
     run_mw s (superAdminOnly r1) (\<lambda>r2.
     run_mw s (validate idParamSchema r2) (\<lambda>r3. deactivateUser now s r3)))"

definition route_updateUserRole ::
  "libs \<Rightarrow> env \<Rightarrow> nat \<Rightarrow> store \<Rightarrow> string request \<Rightarrow> store \<times> (error + User)" where
  "route_updateUserRole L ev now s req =
     run_mw s (protect L ev now req) (\<lambda>r1.
     run_mw s (superAdminOnly r1) (\<lambda>r2.
     run_mw s (validate idParamSchema r2) (\<lambda>r3.
     run_mw s (validate updateUserRoleSchema r3) (\<lambda>r4. updateUserRole now s r4))))"

subsection \<open>author.routes.ts and post.routes.ts\<close>

definition route_createAuthor ::
  "libs \<Rightarrow> env \<Rightarrow> nat \<Rightarrow> string \<Rightarrow> store \<Rightarrow> author_data request \<Rightarrow> store \<times> (error + Author)" where
  "route_createAuthor L ev now oid s req =
     run_mw s (protect L ev now req) (\<lambda>r1.
     run_mw s (adminOnly r1) (\<lambda>r2.
     run_mw s (validate (createAuthorSchema L) r2) (\<lambda>r3. createAuthor now oid s (body r3))))"

definition route_deleteAuthor ::
  "libs \<Rightarrow> env \<Rightarrow> nat \<Rightarrow> store \<Rightarrow> 'b request \<Rightarrow> store \<times> (error + Author)" where
  "route_deleteAuthor L ev now s req =
     run_mw s (protect L ev now req) (\<lambda>r1.
     run_mw s (adminOnly r1) (\<lambda>r2.
     run_mw s (validate idParamSchema r2) (\<lambda>r3. deleteAuthor now s (params_id r3))))"

definition route_deletePost ::
  "libs \<Rightarrow> env \<Rightarrow> nat \<Rightarrow> store \<Rightarrow> 'b request \<Rightarrow> store \<times> (error + Post)" where
  "route_deletePost L ev now s req =
     run_mw s (protect L ev now req) (\<lambda>r1.
     run_mw s (adminOnly r1) (\<lambda>r2.
     run_mw s (validate idParamSchema r2) (\<lambda>r3. deletePost now s (params_id r3))))"

text \<open>Whether a response is a refusal of the access guard (401 or 403).\<close>

fun denied :: "error + 'r \<Rightarrow> bool" where
  "denied (Inl e) = (errorHandler e = 401 \<or> errorHandler e = 403)"
| "denied (Inr r) = False"

section \<open>An example installation\<close>

text \<open>
  Stand-ins for the libraries, to run the model: a token is the secret, the role
  and the user id separated by bars; a hash is the password after a mark; an
  e-mail address has an \<open>@\<close>; an ObjectId is 24 hexadecimal digits.
\<close>

fun split_bar :: "string \<Rightarrow> string list" where
  "split_bar [] = [[]]"
| "split_bar (c # cs) =
     (if c = CHR ''|'' then [] # split_bar cs
      else (case split_bar cs of
              [] \<Rightarrow> [[c]]
            | w # ws \<Rightarrow> (c # w) # ws))"

definition ex_libs :: libs where
  "ex_libs =
     \<lparr>jwt_sign = (\<lambda>p secret expiresIn now.
         if secret = [] then None else Some (secret @ ''|'' @ role p @ ''|'' @ userId p)),
      jwt_verify = (\<lambda>t secret now.
         case split_bar t of
           [k, r, u] \<Rightarrow> if k = secret \<and> secret \<noteq> [] then Some \<lparr>userId = u, role = r\<rparr> else None
         | _ \<Rightarrow> None),
      bcrypt_hash = (\<lambda>pw rounds. ''$2b$'' @ pw),
      bcrypt_compare = (\<lambda>pw h. h = ''$2b$'' @ pw),
      zod_email = (\<lambda>e. CHR ''@'' \<in> set e),
      ObjectId_isValid = objectId\<rparr>"

definition ex_env :: env where
  "ex_env = \<lparr>JWT_SECRET = ''s3cret'', JWT_EXPIRES_IN = ''7d''\<rparr>"

definition ex_admin :: User where
  "ex_admin = \<lparr>u_id = ''0000000000000000000000a1'', u_name = ''Ann'', u_email = ''ann@x.com'',
               u_password = ''$2b$secret1'', u_role = ''admin'', u_isActive = True,
               u_deletedAt = None, u_createdAt = 1, u_updatedAt = 1\<rparr>"

definition ex_gone :: User where
  "ex_gone = \<lparr>u_id = ''0000000000000000000000a2'', u_name = ''Bob'', u_email = ''bob@x.com'',
              u_password = ''$2b$secret2'', u_role = ''admin'', u_isActive = False,
              u_deletedAt = Some 5, u_createdAt = 2, u_updatedAt = 5\<rparr>"

definition ex_author :: Author where
  "ex_author = \<lparr>a_id = ''0000000000000000000000b1'', a_name = ''Jane'', a_email = ''jane@x.com'',
                a_bio = [], a_status = ''active'', a_deletedAt = None,
                a_createdAt = 3, a_updatedAt = 3\<rparr>"

definition ex_post :: Post where
  "ex_post = \<lparr>p_id = ''0000000000000000000000c1'', p_title = ''Express basics'',
              p_slug = ''express-basics'', p_content = ''All about express.'',
              p_image = DEFAULT_POST_IMAGE, p_status = ''draft'', p_tags = [''node''],
              p_author = ''0000000000000000000000b1'', p_publishedAt = None, p_deletedAt = None,
              p_createdAt = 4, p_updatedAt = 4\<rparr>"

definition ex_store :: store where
  "ex_store = \<lparr>users = [ex_admin, ex_gone], authors = [ex_author], posts = [ex_post]\<rparr>"

text \<open>
  A matcher for the filters of the examples. In the merged conditions a later
  \<open>find\<close> replaces the entry of an earlier one for the same path (the examples
  have no two operator objects on one path, which Mongoose would merge); the
  conditions hold when each entry holds, an entry being an equality or a \<open>$ne\<close>
  on \<open>status\<close> or \<open>author\<close>. Documents are ordered by \<open>createdAt\<close>.
\<close>

definition ex_post_field :: "string \<Rightarrow> Post \<Rightarrow> jsval option" where
  "ex_post_field k p =
     (if k = ''status'' then Some (JStr (p_status p))
      else if k = ''author'' then Some (JStr (p_author p))
      else None)"

fun ex_entry :: "Post \<Rightarrow> string \<times> jsval \<Rightarrow> bool" where
  "ex_entry p (k, JObj [(op, v)]) = (op = ''$ne'' \<and> ex_post_field k p \<noteq> Some v)"
| "ex_entry p (k, v) = (ex_post_field k p = Some v)"

fun ex_merge :: "(string \<times> jsval) list \<Rightarrow> jsval \<Rightarrow> (string \<times> jsval) list" where
  "ex_merge conds (JObj kvs) = fold (\<lambda>(k, v) acc. set_key k v acc) kvs conds"
| "ex_merge conds _ = conds"

definition ex_matches :: "jsval list \<Rightarrow> Post \<Rightarrow> bool" where
  "ex_matches fs p = list_all (ex_entry p) (fold (\<lambda>f acc. ex_merge acc f) fs [])"

definition ex_engine :: "Post engine" where
  "ex_engine =
     \<lparr>matches = ex_matches,
      sort_docs = (\<lambda>sp ds. if sp = ''-createdAt'' then rev (sort_key p_createdAt ds)
                           else if sp = ''createdAt'' then sort_key p_createdAt ds else ds)\<rparr>"

text \<open>Requests and payloads of the examples.\<close>

definition ex_register :: "register_data request" where
  "ex_register =
     \<lparr>authorization = None, params_id = [], req_query = [],
      body = \<lparr>rd_name = ''Eve'', rd_email = ''Eve@X.com'', rd_password = ''hunter22'',
              rd_role = Some ''super_admin''\<rparr>,
      req_user = None\<rparr>"

definition ex_eve :: User where
  "ex_eve = \<lparr>u_id = ''0000000000000000000000a3'', u_name = ''Eve'', u_email = ''eve@x.com'',
             u_password = ''$2b$hunter22'', u_role = ''super_admin'', u_isActive = True,
             u_deletedAt = None, u_createdAt = 9, u_updatedAt = 9\<rparr>"

definition ex_status_only :: "string \<Rightarrow> post_payload" where
  "ex_status_only st =
     \<lparr>pl_title = None, pl_slug = None, pl_content = None, pl_image = None,
      pl_status = Some st, pl_tags = None, pl_author = None,
      pl_publishedAt = None, pl_deletedAt = None\<rparr>"

definition ex_new_post :: "string \<Rightarrow> post_payload" where
  "ex_new_post st =
     \<lparr>pl_title = Some ''Hello world'', pl_slug = Some ''Hello-World'',
      pl_content = Some ''Some content here'', pl_image = None,
      pl_status = Some st, pl_tags = None, pl_author = Some ''0000000000000000000000b1'',
      pl_publishedAt = None, pl_deletedAt = None\<rparr>"

definition ex_request :: "string \<Rightarrow> string \<Rightarrow> 'b \<Rightarrow> 'b request" where
  "ex_request t i b =
     \<lparr>authorization = Some (''Bearer '' @ t), params_id = i, req_query = [], body = b,
      req_user = None\<rparr>"

definition ex_admin_token :: string where
  "ex_admin_token = ''s3cret|admin|0000000000000000000000a1''"

definition ex_super_token :: string where
  "ex_super_token = ''s3cret|super_admin|0000000000000000000000a3''"

definition ex_user_engine :: "User engine" where
  "ex_user_engine = \<lparr>matches = (\<lambda>fs u. u_isActive u), sort_docs = (\<lambda>sp ds. ds)\<rparr>"

definition ex_jane :: author_data where
  "ex_jane = \<lparr>ad_name = ''June'', ad_email = ''june@x.com'', ad_bio = None\<rparr>"

section \<open>Lists and lookups\<close>

lemma find_Some_P: "find P xs = Some x \<Longrightarrow> P x \<and> x \<in> set xs"
  by (induction xs) (auto split: if_splits)

lemma update_first_mem: "find P xs = Some x \<Longrightarrow> f x \<in> set (update_first P f xs)"
  by (induction xs) (auto split: if_splits)

lemma update_first_const_mem:
  "x \<in> set xs \<Longrightarrow> P x \<Longrightarrow> y \<in> set (update_first P (\<lambda>_. y) xs)"
  by (induction xs) auto

lemma findOneAndUpdate_none: "find P xs = None \<Longrightarrow> findOneAndUpdate P f xs = (xs, None)"
  by (simp add: findOneAndUpdate_def)

text \<open>
  With distinct keys, once the first match of a filter that fixes the key has been
  moved out of the filter, nothing matches any more.
\<close>

lemma find_update_first_None:
  assumes "\<And>x. P x \<Longrightarrow> \<not> P (f x)" and "distinct (map k xs)"
    and "\<And>x y. P x \<Longrightarrow> P y \<Longrightarrow> k x = k y"
  shows "find P (update_first P f xs) = None"
  using assms(2)
proof (induction xs)
  case Nil
  then show ?case by simp
next
  case (Cons x xs)
  show ?case
  proof (cases "P x")
    case True
    have "\<And>y. y \<in> set xs \<Longrightarrow> \<not> P y"
    proof
      fix y assume y: "y \<in> set xs" and "P y"
      with True have "k x = k y" using assms(3) by blast
      with y Cons.prems show False by (auto simp: image_iff)
    qed
    then have "find P xs = None" by (simp add: find_None_iff)
    with True assms(1) show ?thesis by simp
  next
    case False
    with Cons show ?thesis by simp
  qed
qed

lemma find_update_key_None:
  assumes "distinct (map k xs)" and "\<And>x. P x \<Longrightarrow> k x = c" and "\<And>x. \<not> P (f x)"
  shows "find P (update_first (\<lambda>x. k x = c) f xs) = None"
  using assms(1)
proof (induction xs)
  case Nil
  then show ?case by simp
next
  case (Cons x xs)
  show ?case
  proof (cases "k x = c")
    case True
    have "\<And>y. y \<in> set xs \<Longrightarrow> \<not> P y"
    proof
      fix y assume y: "y \<in> set xs" and "P y"
      then have "k y = c" using assms(2) by blast
      with True y Cons.prems show False by (auto simp: image_iff)
    qed
    then have "find P xs = None" by (simp add: find_None_iff)
    with True assms(3) show ?thesis by simp
  next
    case False
    then have "\<not> P x" using assms(2) by blast
    with False Cons show ?thesis by simp
  qed
qed

section \<open>Login and deactivated accounts\<close>

text \<open>
  \<open>login\<close> reads the e-mail address, the password hash, the id, the name and the role
  of the stored user, and nothing else: whenever the address finds a user,
  \<open>bcrypt.compare\<close> accepts the password and \<open>jwt.sign\<close> returns \<open>t\<close>, the answer is
  \<open>t\<close> with that user's id, name, address and role, whatever \<open>isActive\<close> is.
\<close>

lemma login_any_stored_user:
  assumes "find (\<lambda>x. u_email x = email_setters (ld_email d)) (users s) = Some u"
    and "bcrypt_compare L (ld_password d) (u_password u)"
    and "jwt_sign L \<lparr>userId = u_id u, role = u_role u\<rparr> (JWT_SECRET ev) (JWT_EXPIRES_IN ev) now = Some t"
  shows "login L ev now s d
           = (s, Inr \<lparr>token = t,
                      user = \<lparr>pu_id = u_id u, pu_name = u_name u, pu_email = u_email u,
                               pu_role = u_role u\<rparr>\<rparr>)"
  using assms
  by (simp add: login_def User_findOne_email_def signToken_def auth_result_of_def)

text \<open>
  C1. The claim: a user whose \<open>isActive\<close> is false does not log in with its e-mail
  address and its password. The code: Bob is stored, deactivated at time 5
  (\<open>isActive\<close> false); \<open>login\<close> with his address and his password finds him by the
  address alone, the password is accepted, and he is given a token for his id and
  his role. The field that the model calls the soft disabling of a user is not
  read by the one path that authenticates by credentials.
\<close>

theorem login_of_deactivated_user:
  "ex_gone \<in> set (users ex_store) \<and> \<not> u_isActive ex_gone \<and> u_deletedAt ex_gone = Some 5
   \<and> bcrypt_compare ex_libs ''secret2'' (u_password ex_gone)
   \<and> login ex_libs ex_env 9 ex_store \<lparr>ld_email = ''bob@x.com'', ld_password = ''secret2''\<rparr>
       = (ex_store, Inr \<lparr>token = ''s3cret|admin|0000000000000000000000a2'',
                        user = \<lparr>pu_id = ''0000000000000000000000a2'', pu_name = ''Bob'',
                                 pu_email = ''bob@x.com'', pu_role = ''admin''\<rparr>\<rparr>)
   \<and> jwt_verify ex_libs ''s3cret|admin|0000000000000000000000a2'' (JWT_SECRET ex_env) 10
       = Some \<lparr>userId = ''0000000000000000000000a2'', role = ''admin''\<rparr>"
  by code_simp

section \<open>Soft delete, a second time\<close>

lemma deletePost_not_found:
  "find (\<lambda>p. p_id p = pid \<and> p_status p \<noteq> ''deleted'') (posts s) = None
   \<Longrightarrow> deletePost now s pid = (s, Inl (AppError ''Post not found'' 404))"
  by (simp add: deletePost_def findOneAndUpdate_none)

lemma deleteAuthor_not_found:
  "find (\<lambda>a. a_id a = aid \<and> a_status a \<noteq> ''deleted'') (authors s) = None
   \<Longrightarrow> deleteAuthor now s aid = (s, Inl (AppError ''Author not found'' 404))"
  by (simp add: deleteAuthor_def)

text \<open>Posts: a second delete finds nothing and changes nothing.\<close>

lemma deletePost_twice:
  assumes "distinct (map p_id (posts s))"
  shows "deletePost now' (fst (deletePost now s pid)) pid
         = (fst (deletePost now s pid), Inl (AppError ''Post not found'' 404))"
proof (cases "find (\<lambda>p. p_id p = pid \<and> p_status p \<noteq> ''deleted'') (posts s)")
  case None
  then show ?thesis by (simp add: deletePost_not_found)
next
  case (Some p)
  have "find (\<lambda>p. p_id p = pid \<and> p_status p \<noteq> ''deleted'')
          (update_first (\<lambda>p. p_id p = pid \<and> p_status p \<noteq> ''deleted'')
             (\<lambda>p. p\<lparr>p_status := ''deleted'', p_deletedAt := Some now, p_publishedAt := None,
                     p_updatedAt := now\<rparr>) (posts s)) = None"
    by (rule find_update_first_None [where k = p_id]) (use assms in auto)
  with Some show ?thesis
    by (simp add: deletePost_def findOneAndUpdate_def)
qed

text \<open>Authors: after a delete that went through, a second one finds nothing.\<close>

lemma deleteAuthor_twice:
  assumes "distinct (map a_id (authors s))"
    and "deleteAuthor now s aid = (s', Inr a')"
  shows "deleteAuthor now' s' aid = (s', Inl (AppError ''Author not found'' 404))"
proof -
  from assms(2) obtain a where
    f: "find (\<lambda>a. a_id a = aid \<and> a_status a \<noteq> ''deleted'') (authors s) = Some a"
    by (cases "find (\<lambda>a. a_id a = aid \<and> a_status a \<noteq> ''deleted'') (authors s)")
       (auto simp: deleteAuthor_def)
  then have a: "a_id a = aid" using find_Some_P [OF f] by simp
  from assms(2) f a have s': "authors s' = update_first (\<lambda>x. a_id x = aid)
      (\<lambda>x. a\<lparr>a_status := ''deleted'', a_deletedAt := Some now, a_updatedAt := now\<rparr>) (authors s)"
    by (auto simp: deleteAuthor_def Let_def split: if_splits)
  have "find (\<lambda>a. a_id a = aid \<and> a_status a \<noteq> ''deleted'') (authors s') = None"
    unfolding s' by (rule find_update_key_None [OF assms(1)]) auto
  then show ?thesis by (rule deleteAuthor_not_found)
qed

text \<open>Users: the deactivation of a stored user goes through, whatever \<open>isActive\<close> is.\<close>

lemma deactivateUser_any:
  assumes "find (\<lambda>u. u_id u = params_id req) (users s) = Some u"
  shows "snd (deactivateUser now s req)
           = Inr (u\<lparr>u_isActive := False, u_deletedAt := Some now, u_updatedAt := now\<rparr>)"
  using assms by (simp add: deactivateUser_def findOneAndUpdate_def)

text \<open>
  C2. The claim: for posts, authors and users, the soft delete of a record that is
  already deleted or inactive answers NotFound and changes nothing. Posts and
  authors do (lemmas \<open>deletePost_twice\<close>, \<open>deleteAuthor_twice\<close>): their writes are
  conditioned on \<open>status \<noteq> deleted\<close>. \<open>deactivateUser\<close> selects by \<open>_id\<close> alone:
  on Bob, deactivated at time 5, a second deactivation at time 9 succeeds and
  overwrites \<open>deletedAt\<close>.
\<close>

theorem deactivateUser_again:
  "u_isActive ex_gone = False \<and> u_deletedAt ex_gone = Some 5
   \<and> deactivateUser 9 ex_store
        \<lparr>authorization = None, params_id = ''0000000000000000000000a2'', req_query = [],
         body = (), req_user = None\<rparr>
      = (ex_store\<lparr>users := [ex_admin, ex_gone\<lparr>u_deletedAt := Some 9, u_updatedAt := 9\<rparr>]\<rparr>,
         Inr (ex_gone\<lparr>u_deletedAt := Some 9, u_updatedAt := 9\<rparr>))"
  by code_simp

section \<open>The access guard\<close>

lemma split_space_nospace: "CHR '' '' \<notin> set t \<Longrightarrow> split_space t = [t]"
  by (induction t) auto

lemma protect_bearer:
  assumes "CHR '' '' \<notin> set t" and "authorization req = Some (''Bearer '' @ t)"
  shows "protect L ev now req =
           (case jwt_verify L t (JWT_SECRET ev) now of
              Some d \<Rightarrow> Inr (req\<lparr>req_user := Some \<lparr>userId = userId d, role = role d\<rparr>\<rparr>)
            | None \<Rightarrow> Inl (AppError ''Invalid or expired token'' 401))"
  using assms by (simp add: protect_def startsWith_def split_space_nospace)

lemma protect_same_header_Inr:
  "authorization r1 = authorization r2 \<Longrightarrow> protect L ev now r1 = Inr x
   \<Longrightarrow> protect L ev now r2 = Inr (r2\<lparr>req_user := req_user x\<rparr>)"
  by (auto simp: protect_def split: option.splits if_splits list.splits)

lemma protect_same_header_Inl:
  "authorization r1 = authorization r2 \<Longrightarrow> protect L ev now r1 = Inl e
   \<Longrightarrow> protect L ev now r2 = Inl e"
  by (auto simp: protect_def split: option.splits if_splits list.splits)

lemma protect_denied: "protect L ev now r = Inl e \<Longrightarrow> errorHandler e = 401"
  by (auto simp: protect_def split: option.splits if_splits list.splits)

lemma adminOnly_cases:
  "adminOnly r =
     (if (\<exists>u. req_user r = Some u \<and> (role u = ''admin'' \<or> role u = ''super_admin''))
      then Inr r else Inl (AppError ''Forbidden (admin only)'' 403))"
  by (auto simp: adminOnly_def split: option.splits)

lemma superAdminOnly_cases:
  "superAdminOnly r =
     (if (\<exists>u. req_user r = Some u \<and> role u = ''super_admin'')
      then Inr r else Inl (AppError ''Forbidden (super admin only)'' 403))"
  by (auto simp: superAdminOnly_def split: option.splits)

text \<open>No controller answers 401 or 403: those come from the guard alone.\<close>

lemma not_denied_createAuthor: "\<not> denied (snd (createAuthor now oid s d))"
  by (simp add: createAuthor_def Let_def)

lemma not_denied_deactivateUser: "\<not> denied (snd (deactivateUser now s r))"
  by (simp add: deactivateUser_def findOneAndUpdate_def split: option.splits)

lemma not_denied_deleteAuthor: "\<not> denied (snd (deleteAuthor now s aid))"
  by (simp add: deleteAuthor_def Let_def split: option.splits)

lemma not_denied_deletePost: "\<not> denied (snd (deletePost now s pid))"
  by (simp add: deletePost_def findOneAndUpdate_def split: option.splits)

lemma not_denied_validate:
  "(\<And>r'. \<not> denied (snd (k r'))) \<Longrightarrow> \<not> denied (snd (run_mw s (validate sch r) k))"
  by (simp add: validate_def)

lemma guard_outcome_getUsers:
  "denied (snd (route_getUsers L ev now E s r))
     = (case protect L ev now r of Inl e \<Rightarrow> True
        | Inr x \<Rightarrow> (case superAdminOnly x of Inl e \<Rightarrow> True | Inr y \<Rightarrow> False))"
  by (auto simp: route_getUsers_def superAdminOnly_cases dest: protect_denied split: sum.splits)

lemma guard_outcome_deactivateUser:
  "denied (snd (route_deactivateUser L ev now s r))
     = (case protect L ev now r of Inl e \<Rightarrow> True
        | Inr x \<Rightarrow> (case superAdminOnly x of Inl e \<Rightarrow> True | Inr y \<Rightarrow> False))"
  by (auto simp: route_deactivateUser_def superAdminOnly_cases validate_def not_denied_deactivateUser
        dest: protect_denied split: sum.splits)

lemma guard_outcome_deleteAuthor:
  "denied (snd (route_deleteAuthor L ev now s r))
     = (case protect L ev now r of Inl e \<Rightarrow> True
        | Inr x \<Rightarrow> (case adminOnly x of Inl e \<Rightarrow> True | Inr y \<Rightarrow> False))"
  by (auto simp: route_deleteAuthor_def adminOnly_cases validate_def not_denied_deleteAuthor
        dest: protect_denied split: sum.splits)

lemma guard_outcome_deletePost:
  "denied (snd (route_deletePost L ev now s r))
     = (case protect L ev now r of Inl e \<Rightarrow> True
        | Inr x \<Rightarrow> (case adminOnly x of Inl e \<Rightarrow> True | Inr y \<Rightarrow> False))"
  by (auto simp: route_deletePost_def adminOnly_cases validate_def not_denied_deletePost
        dest: protect_denied split: sum.splits)

lemma guards_same_header:
  fixes r1 :: "'a request" and r2 :: "'b request"
  assumes "authorization r1 = authorization r2"
  shows "map_sum id req_user (protect L ev now r1) = map_sum id req_user (protect L ev now r2)"
    and "map_sum id req_user (case protect L ev now r1 of Inl e \<Rightarrow> Inl e | Inr x \<Rightarrow> adminOnly x)
         = map_sum id req_user (case protect L ev now r2 of Inl e \<Rightarrow> Inl e | Inr x \<Rightarrow> adminOnly x)"
    and "map_sum id req_user (case protect L ev now r1 of Inl e \<Rightarrow> Inl e | Inr x \<Rightarrow> superAdminOnly x)
         = map_sum id req_user (case protect L ev now r2 of Inl e \<Rightarrow> Inl e | Inr x \<Rightarrow> superAdminOnly x)"
proof -
  show a: "map_sum id req_user (protect L ev now r1) = map_sum id req_user (protect L ev now r2)"
  proof (cases "protect L ev now r1")
    case (Inl e)
    with protect_same_header_Inl [OF assms Inl] show ?thesis by simp
  next
    case (Inr x)
    with protect_same_header_Inr [OF assms Inr] show ?thesis by simp
  qed
  show "map_sum id req_user (case protect L ev now r1 of Inl e \<Rightarrow> Inl e | Inr x \<Rightarrow> adminOnly x)
         = map_sum id req_user (case protect L ev now r2 of Inl e \<Rightarrow> Inl e | Inr x \<Rightarrow> adminOnly x)"
    using a by (cases "protect L ev now r1"; cases "protect L ev now r2")
      (auto simp: adminOnly_cases)
  show "map_sum id req_user (case protect L ev now r1 of Inl e \<Rightarrow> Inl e | Inr x \<Rightarrow> superAdminOnly x)
         = map_sum id req_user (case protect L ev now r2 of Inl e \<Rightarrow> Inl e | Inr x \<Rightarrow> superAdminOnly x)"
    using a by (cases "protect L ev now r1"; cases "protect L ev now r2")
      (auto simp: superAdminOnly_cases)
qed

lemma guard_case_eq:
  fixes r1 :: "'a request" and r2 :: "'b request"
  assumes "authorization r1 = authorization r2"
  shows "(case protect L ev now r1 of Inl e \<Rightarrow> True
        | Inr x \<Rightarrow> (case superAdminOnly x of Inl e \<Rightarrow> True | Inr y \<Rightarrow> False))
       = (case protect L ev now r2 of Inl e \<Rightarrow> True
        | Inr x \<Rightarrow> (case superAdminOnly x of Inl e \<Rightarrow> True | Inr y \<Rightarrow> False))"
   and "(case protect L ev now r1 of Inl e \<Rightarrow> True
        | Inr x \<Rightarrow> (case adminOnly x of Inl e \<Rightarrow> True | Inr y \<Rightarrow> False))
       = (case protect L ev now r2 of Inl e \<Rightarrow> True
        | Inr x \<Rightarrow> (case adminOnly x of Inl e \<Rightarrow> True | Inr y \<Rightarrow> False))"
  using guards_same_header(1) [OF assms, of L ev now]
  by (cases "protect L ev now r1"; cases "protect L ev now r2";
      auto simp: adminOnly_cases superAdminOnly_cases)+

section \<open>The pagination stage\<close>

declare show_nat.simps [simp del]

lemma show_nat_10: "show_nat 10 = ''10''"
  by code_simp

lemma paginate_fields:
  "page (paginate dl ml f) =
     Math_max (parseInt (js_String (or_else (map_of (reqQuery f) ''page'') ''1''))) (Num 1)"
  "limit (paginate dl ml f) =
     Math_min (Math_max (parseInt (js_String (or_else (map_of (reqQuery f) ''limit'') (show_nat dl))))
                 (Num 1)) (Num (int ml))"
  "skip (paginate dl ml f) =
     js_times (js_minus (page (paginate dl ml f)) (Num 1)) (limit (paginate dl ml f))"
  "q_limit (query (paginate dl ml f)) = Some (limit (paginate dl ml f))"
  "q_skip (query (paginate dl ml f)) = Some (skip (paginate dl ml f))"
  "q_filters (query (paginate dl ml f)) = q_filters (query f)"
  "q_sort (query (paginate dl ml f)) = q_sort (query f)"
  by (simp_all add: paginate_def Let_def)

text \<open>The limit is not a number, or it lies between 1 and the maximum.\<close>

lemma paginate_limit_cases:
  "1 \<le> ml \<Longrightarrow>
   limit (paginate dl ml f) = NaN
   \<or> (\<exists>l. limit (paginate dl ml f) = Num l \<and> 1 \<le> l \<and> l \<le> int ml)"
  unfolding paginate_fields
  by (cases "parseInt (js_String (or_else (map_of (reqQuery f) ''limit'') (show_nat dl)))") auto

text \<open>
  Where \<open>parseInt\<close> reads a number from both parameters, the stage does what the
  pipeline intends: the page is at least 1, the limit is clamped, and the offset is
  \<open>(page - 1) * limit\<close>.
\<close>

lemma paginate_numeric:
  assumes "parseInt (js_String (or_else (map_of (reqQuery f) ''page'') ''1'')) = Num p"
    and "parseInt (js_String (or_else (map_of (reqQuery f) ''limit'') (show_nat dl))) = Num l"
  shows "page (paginate dl ml f) = Num (max p 1)"
    and "limit (paginate dl ml f) = Num (min (max l 1) (int ml))"
    and "skip (paginate dl ml f) = Num ((max p 1 - 1) * min (max l 1) (int ml))"
  using assms by (simp_all add: paginate_fields)

text \<open>With neither parameter in the query, the defaults are page 1 and limit 10.\<close>

lemma paginate_absent:
  assumes "map_of (reqQuery f) ''page'' = None" and "map_of (reqQuery f) ''limit'' = None"
  shows "page (paginate 10 100 f) = Num 1 \<and> limit (paginate 10 100 f) = Num 10
         \<and> skip (paginate 10 100 f) = Num 0"
proof -
  have a: "parseInt ''1'' = Num 1" by code_simp
  have b: "parseInt ''10'' = Num 10" by code_simp
  show ?thesis using assms a b
    by (simp add: paginate_fields or_else_def show_nat_10)
qed

text \<open>
  C5. The claim: for every raw query the stage yields a page of at least 1, a limit
  in [1,100] and the offset \<open>(page - 1) * limit\<close>, non-numeric input being coerced
  into the range. The code at \<open>?page=abc\<close>: \<open>parseInt("abc", 10)\<close> is \<open>NaN\<close>,
  \<open>Math.max(NaN, 1)\<close> is \<open>NaN\<close>, so the page and the offset are \<open>NaN\<close>; the
  clamp does not catch a value that is not a number.
\<close>

theorem paginate_page_not_a_number:
  "page (paginate 10 100 (new_ApiFeatures (find_query not_deleted_scope) [(''page'', JStr ''abc'')])) = NaN
   \<and> limit (paginate 10 100 (new_ApiFeatures (find_query not_deleted_scope) [(''page'', JStr ''abc'')])) = Num 10
   \<and> skip (paginate 10 100 (new_ApiFeatures (find_query not_deleted_scope) [(''page'', JStr ''abc'')])) = NaN"
  by code_simp

section \<open>Registration\<close>

lemma User_create_ok:
  assumes "User_validate d"
    and "User_findOne_email (ui_email d) s = None"
    and "list_all (\<lambda>u. u_id u \<noteq> oid) (users s)"
  shows "User_create now oid d s =
           Inr (s\<lparr>users := users s @
                  [\<lparr>u_id = oid, u_name = trim (ui_name d), u_email = email_setters (ui_email d),
                    u_password = ui_password d, u_role = ui_role d, u_isActive = True,
                    u_deletedAt = None, u_createdAt = now, u_updatedAt = now\<rparr>]\<rparr>,
                \<lparr>u_id = oid, u_name = trim (ui_name d), u_email = email_setters (ui_email d),
                    u_password = ui_password d, u_role = ui_role d, u_isActive = True,
                    u_deletedAt = None, u_createdAt = now, u_updatedAt = now\<rparr>)"
proof -
  have "\<not> list_ex (\<lambda>u. u_id u = oid \<or> u_email u = email_setters (ui_email d)) (users s)"
    using assms(2,3)
    by (auto simp: User_findOne_email_def find_None_iff list_ex_iff list_all_iff)
  with assms(1) show ?thesis by (simp add: User_create_def Let_def)
qed

text \<open>
  C3. The register route has no guard before it and passes the \<open>role\<close> of the body
  on. For a request that the schema accepts, with \<open>role = super_admin\<close>, a document
  the model's validators accept, an address no stored user has, a fresh \<open>_id\<close> and a
  \<open>jwt.sign\<close> that returns \<open>t\<close> for that id and the role \<open>super_admin\<close>: the route,
  with or without an \<open>Authorization\<close> header, stores a user with the role
  \<open>super_admin\<close> and answers with the token \<open>t\<close> and the user's id, name, address
  and role \<open>super_admin\<close>. Where \<open>jwt.verify\<close> accepts \<open>t\<close> for that identity, a
  request bearing \<open>t\<close> passes \<open>protect\<close> and \<open>superAdminOnly\<close> and reaches the user
  list.
\<close>

theorem register_grants_super_admin:
  fixes req :: "register_data request" and req' :: "'b request"
  assumes "registerSchema L req"
    and "rd_role (body req) = Some ''super_admin''"
    and "User_validate \<lparr>ui_name = rd_name (body req), ui_email = rd_email (body req),
                         ui_password = bcrypt_hash L (rd_password (body req)) 10,
                         ui_role = ''super_admin''\<rparr>"
    and "User_findOne_email (rd_email (body req)) s = None"
    and "list_all (\<lambda>u. u_id u \<noteq> oid) (users s)"
    and "jwt_sign L \<lparr>userId = oid, role = ''super_admin''\<rparr> (JWT_SECRET ev) (JWT_EXPIRES_IN ev) now
           = Some t"
    and "jwt_verify L t (JWT_SECRET ev) now' = Some \<lparr>userId = oid, role = ''super_admin''\<rparr>"
    and "CHR '' '' \<notin> set t"
    and "authorization req' = Some (''Bearer '' @ t)"
  shows "(let u = \<lparr>u_id = oid, u_name = trim (rd_name (body req)),
                   u_email = email_setters (rd_email (body req)),
                   u_password = bcrypt_hash L (rd_password (body req)) 10,
                   u_role = ''super_admin'', u_isActive = True, u_deletedAt = None,
                   u_createdAt = now, u_updatedAt = now\<rparr>;
              s' = s\<lparr>users := users s @ [u]\<rparr>;
              answer = \<lparr>token = t,
                        user = \<lparr>pu_id = oid, pu_name = trim (rd_name (body req)),
                                 pu_email = email_setters (rd_email (body req)),
                                 pu_role = ''super_admin''\<rparr>\<rparr>
          in route_register L ev now oid s (req\<lparr>authorization := None\<rparr>) = (s', Inr answer)
             \<and> route_register L ev now oid s req = (s', Inr answer)
             \<and> token answer = t \<and> pu_role (user answer) = ''super_admin''
             \<and> route_getUsers L ev now' E s' req'
                 = (s', Inr (getUsers E s'
                              (req'\<lparr>req_user := Some \<lparr>userId = oid, role = ''super_admin''\<rparr>\<rparr>))))"
proof -
  let ?d = "\<lparr>ui_name = rd_name (body req), ui_email = rd_email (body req),
             ui_password = bcrypt_hash L (rd_password (body req)) 10,
             ui_role = ''super_admin''\<rparr>"
  let ?u = "\<lparr>u_id = oid, u_name = trim (rd_name (body req)),
             u_email = email_setters (rd_email (body req)),
             u_password = bcrypt_hash L (rd_password (body req)) 10, u_role = ''super_admin'',
             u_isActive = True, u_deletedAt = None, u_createdAt = now, u_updatedAt = now\<rparr>"
  let ?a = "\<lparr>token = t,
             user = \<lparr>pu_id = oid, pu_name = trim (rd_name (body req)),
                      pu_email = email_setters (rd_email (body req)),
                      pu_role = ''super_admin''\<rparr>\<rparr>"
  have c: "User_create now oid ?d s = Inr (s\<lparr>users := users s @ [?u]\<rparr>, ?u)"
    using User_create_ok [of ?d s oid now] assms(3,4,5) by simp
  have r: "register L ev now oid s (body req) = (s\<lparr>users := users s @ [?u]\<rparr>, Inr ?a)"
    using assms(2,4,6) c by (simp add: register_def Let_def signToken_def auth_result_of_def)
  have s1: "registerSchema L (req\<lparr>authorization := None\<rparr>)"
    using assms(1) by (simp add: registerSchema_def)
  have a: "route_register L ev now oid s req = (s\<lparr>users := users s @ [?u]\<rparr>, Inr ?a)"
    using assms(1) r by (simp add: route_register_def validate_def)
  have b: "route_register L ev now oid s (req\<lparr>authorization := None\<rparr>)
             = (s\<lparr>users := users s @ [?u]\<rparr>, Inr ?a)"
    using s1 r by (simp add: route_register_def validate_def)
  have g: "route_getUsers L ev now' E (s\<lparr>users := users s @ [?u]\<rparr>) req'
               = (s\<lparr>users := users s @ [?u]\<rparr>,
                  Inr (getUsers E (s\<lparr>users := users s @ [?u]\<rparr>)
                         (req'\<lparr>req_user := Some \<lparr>userId = oid, role = ''super_admin''\<rparr>\<rparr>)))"
    using protect_bearer [OF assms(8,9), of L ev now'] assms(7)
    by (simp add: route_getUsers_def superAdminOnly_def)
  show ?thesis
    unfolding Let_def using a b g by simp
qed

text \<open>
  Eve registers with no header and the role \<open>super_admin\<close>: she is stored with that
  role, the answer holds her token, and the token opens the user list.
\<close>

theorem register_grants_super_admin_witness:
  "authorization ex_register = None
   \<and> route_register ex_libs ex_env 9 ''0000000000000000000000a3'' ex_store ex_register
       = (ex_store\<lparr>users := [ex_admin, ex_gone, ex_eve]\<rparr>,
          Inr \<lparr>token = ''s3cret|super_admin|0000000000000000000000a3'',
               user = \<lparr>pu_id = ''0000000000000000000000a3'', pu_name = ''Eve'',
                        pu_email = ''eve@x.com'', pu_role = ''super_admin''\<rparr>\<rparr>)
   \<and> u_role ex_eve = ''super_admin''
   \<and> \<not> denied (snd (route_getUsers ex_libs ex_env 10 ex_user_engine
                      (ex_store\<lparr>users := [ex_admin, ex_gone, ex_eve]\<rparr>)
                      (ex_request ''s3cret|super_admin|0000000000000000000000a3'' [] ())))"
proof -
  let ?t = "''s3cret|super_admin|0000000000000000000000a3''"
  have 1: "registerSchema ex_libs ex_register" by code_simp
  have 2: "rd_role (body ex_register) = Some ''super_admin''" by code_simp
  have 3: "User_validate \<lparr>ui_name = rd_name (body ex_register), ui_email = rd_email (body ex_register),
                         ui_password = bcrypt_hash ex_libs (rd_password (body ex_register)) 10,
                         ui_role = ''super_admin''\<rparr>" by code_simp
  have 4: "User_findOne_email (rd_email (body ex_register)) ex_store = None" by code_simp
  have 5: "list_all (\<lambda>u. u_id u \<noteq> ''0000000000000000000000a3'') (users ex_store)" by code_simp
  have 6: "jwt_sign ex_libs \<lparr>userId = ''0000000000000000000000a3'', role = ''super_admin''\<rparr>
             (JWT_SECRET ex_env) (JWT_EXPIRES_IN ex_env) 9 = Some ?t" by code_simp
  have 7: "jwt_verify ex_libs ?t (JWT_SECRET ex_env) 10
             = Some \<lparr>userId = ''0000000000000000000000a3'', role = ''super_admin''\<rparr>" by code_simp
  have 8: "CHR '' '' \<notin> set ?t" by code_simp
  have 9: "authorization (ex_request ?t [] ()) = Some (''Bearer '' @ ?t)"
    by (simp add: ex_request_def)
  have eve: "\<lparr>u_id = ''0000000000000000000000a3'', u_name = ''Eve'', u_email = ''eve@x.com'',
               u_password = bcrypt_hash ex_libs (rd_password (body ex_register)) 10,
               u_role = ''super_admin'', u_isActive = True, u_deletedAt = None,
               u_createdAt = 9, u_updatedAt = 9\<rparr> = ex_eve" by code_simp
  have st: "users ex_store @ [ex_eve] = [ex_admin, ex_gone, ex_eve]"
    by (simp add: ex_store_def)
  have nm: "trim (rd_name (body ex_register)) = ''Eve''"
    and em: "email_setters (rd_email (body ex_register)) = ''eve@x.com''"
    by code_simp+
  note th = register_grants_super_admin [OF 1 2 3 4 5 6 7 8 9, where E = ex_user_engine,
      unfolded Let_def nm em eve st]
  from th have "route_register ex_libs ex_env 9 ''0000000000000000000000a3'' ex_store ex_register
       = (ex_store\<lparr>users := [ex_admin, ex_gone, ex_eve]\<rparr>,
          Inr \<lparr>token = ?t,
               user = \<lparr>pu_id = ''0000000000000000000000a3'', pu_name = ''Eve'',
                        pu_email = ''eve@x.com'', pu_role = ''super_admin''\<rparr>\<rparr>)"
    by blast
  moreover from th have "\<not> denied (snd (route_getUsers ex_libs ex_env 10 ex_user_engine
                      (ex_store\<lparr>users := [ex_admin, ex_gone, ex_eve]\<rparr>)
                      (ex_request ?t [] ())))"
    by simp
  moreover have "authorization ex_register = None" "u_role ex_eve = ''super_admin''"
    by (simp_all add: ex_register_def ex_eve_def)
  ultimately show ?thesis by blast
qed

section \<open>Deleting an author\<close>

text \<open>
  C4. For an author that exists and is not deleted, \<open>deleteAuthor\<close> answers with the
  400 of the referential conflict, the database unchanged, when a post that is not
  deleted refers to the author; with no such post it sets \<open>status\<close> to deleted and
  \<open>deletedAt\<close> to now, stores that document and returns it. The count decides
  before anything is written.
\<close>

theorem deleteAuthor_referential_guard:
  assumes "find (\<lambda>a. a_id a = aid \<and> a_status a \<noteq> ''deleted'') (authors s) = Some a"
  shows "deleteAuthor now s aid =
           (if 0 < activePostsCount s aid
            then (s, Inl (AppError still_has_posts 400))
            else (s\<lparr>authors := update_first (\<lambda>x. a_id x = aid)
                                  (\<lambda>x. a\<lparr>a_status := ''deleted'', a_deletedAt := Some now,
                                          a_updatedAt := now\<rparr>) (authors s)\<rparr>,
                  Inr (a\<lparr>a_status := ''deleted'', a_deletedAt := Some now, a_updatedAt := now\<rparr>)))
         \<and> a\<lparr>a_status := ''deleted'', a_deletedAt := Some now, a_updatedAt := now\<rparr>
             \<in> set (update_first (\<lambda>x. a_id x = aid)
                      (\<lambda>x. a\<lparr>a_status := ''deleted'', a_deletedAt := Some now, a_updatedAt := now\<rparr>)
                      (authors s))
         \<and> activePostsCount s aid
             = length (filter (\<lambda>p. p_author p = aid \<and> p_status p \<noteq> ''deleted'') (posts s))"
proof -
  from assms have a: "a_id a = aid" "a \<in> set (authors s)"
    using find_Some_P [OF assms] by auto
  have 1: "deleteAuthor now s aid =
           (if 0 < activePostsCount s aid
            then (s, Inl (AppError still_has_posts 400))
            else (s\<lparr>authors := update_first (\<lambda>x. a_id x = aid)
                                  (\<lambda>x. a\<lparr>a_status := ''deleted'', a_deletedAt := Some now,
                                          a_updatedAt := now\<rparr>) (authors s)\<rparr>,
                  Inr (a\<lparr>a_status := ''deleted'', a_deletedAt := Some now, a_updatedAt := now\<rparr>)))"
    using assms a by (simp add: deleteAuthor_def Let_def)
  have 2: "a\<lparr>a_status := ''deleted'', a_deletedAt := Some now, a_updatedAt := now\<rparr>
           \<in> set (update_first (\<lambda>x. a_id x = aid)
                    (\<lambda>x. a\<lparr>a_status := ''deleted'', a_deletedAt := Some now, a_updatedAt := now\<rparr>)
                    (authors s))"
    using a by (intro update_first_const_mem) auto
  from 1 2 show ?thesis by (simp add: activePostsCount_def)
qed

text \<open>Jane has a draft: the delete is refused. Once the draft is deleted, it goes through.\<close>

theorem deleteAuthor_referential_guard_witness:
  "deleteAuthor 9 ex_store ''0000000000000000000000b1''
     = (ex_store, Inl (AppError still_has_posts 400))
   \<and> snd (deleteAuthor 9 (fst (deletePost 8 ex_store ''0000000000000000000000c1''))
            ''0000000000000000000000b1'')
     = Inr (ex_author\<lparr>a_status := ''deleted'', a_deletedAt := Some 9, a_updatedAt := 9\<rparr>)"
proof -
  have f1: "find (\<lambda>a. a_id a = ''0000000000000000000000b1'' \<and> a_status a \<noteq> ''deleted'')
              (authors ex_store) = Some ex_author"
    by code_simp
  have c1: "0 < activePostsCount ex_store ''0000000000000000000000b1''"
    by code_simp
  have f2: "find (\<lambda>a. a_id a = ''0000000000000000000000b1'' \<and> a_status a \<noteq> ''deleted'')
              (authors (fst (deletePost 8 ex_store ''0000000000000000000000c1''))) = Some ex_author"
    by code_simp
  have c2: "\<not> 0 < activePostsCount (fst (deletePost 8 ex_store ''0000000000000000000000c1''))
                    ''0000000000000000000000b1''"
    by code_simp
  from deleteAuthor_referential_guard [OF f1, of 9] c1
  have "deleteAuthor 9 ex_store ''0000000000000000000000b1''
          = (ex_store, Inl (AppError still_has_posts 400))"
    by simp
  moreover from deleteAuthor_referential_guard [OF f2, of 9] c2
  have "snd (deleteAuthor 9 (fst (deletePost 8 ex_store ''0000000000000000000000c1''))
            ''0000000000000000000000b1'')
     = Inr (ex_author\<lparr>a_status := ''deleted'', a_deletedAt := Some 9, a_updatedAt := 9\<rparr>)"
    by simp
  ultimately show ?thesis by simp
qed

section \<open>List responses\<close>

lemma length_apply_limit:
  "1 \<le> l \<Longrightarrow> int (length (apply_limit (Some (Num l)) xs)) \<le> l"
  by (auto simp: min_def)

lemma stage_filters:
  "q_filters (query (paginate dl ml f)) = q_filters (query f)"
  "q_filters (query (sort_stage ds f)) = q_filters (query f)"
  by (simp_all add: paginate_def sort_stage_def Let_def)

text \<open>
  Where the limit is a number, a page has at most that many documents and the page
  count is \<open>max (ceil (total / limit)) 1\<close> (the ceiling written with integer
  division).
\<close>

lemma page_numeric:
  assumes "limit (paginate 10 100 f) = Num l"
  shows "1 \<le> l \<and> l \<le> 100
         \<and> int (length (exec_find E (query (paginate 10 100 f)) docs)) \<le> l
         \<and> Math_max (Math_ceil_div tot (limit (paginate 10 100 f))) (Num 1)
             = Num (max ((int tot + l - 1) div l) 1)"
proof -
  have r: "1 \<le> l \<and> l \<le> 100"
    using paginate_limit_cases [of 100 10 f] assms by auto
  have "q_limit (query (paginate 10 100 f)) = Some (Num l)"
    using assms by (simp add: paginate_fields)
  then have "int (length (exec_find E (query (paginate 10 100 f)) docs)) \<le> l"
    using r by (simp only: exec_find_def length_apply_limit)
  with r assms show ?thesis by simp
qed

lemma getPosts_numeric:
  assumes "lr_limit (getPosts E s rq) = Num l"
  shows "1 \<le> l \<and> l \<le> 100
         \<and> int (length (lr_data (getPosts E s rq))) \<le> l
         \<and> lr_totalPages (getPosts E s rq)
             = Num (max ((int (lr_total (getPosts E s rq)) + l - 1) div l) 1)"
  using assms page_numeric [where l = l and E = E and docs = "posts s"]
  by (simp add: getPosts_def Let_def)

lemma getAuthors_numeric:
  assumes "lr_limit (getAuthors E s rq) = Num l"
  shows "1 \<le> l \<and> l \<le> 100
         \<and> int (length (lr_data (getAuthors E s rq))) \<le> l
         \<and> lr_totalPages (getAuthors E s rq)
             = Num (max ((int (lr_total (getAuthors E s rq)) + l - 1) div l) 1)"
  using assms page_numeric [where l = l and E = E and docs = "authors s"]
  by (simp add: getAuthors_def Let_def)

lemma getUsers_numeric:
  assumes "lr_limit (getUsers E s req) = Num l"
  shows "1 \<le> l \<and> l \<le> 100
         \<and> int (length (lr_data (getUsers E s req))) \<le> l
         \<and> lr_totalPages (getUsers E s req)
             = Num (max ((int (lr_total (getUsers E s req)) + l - 1) div l) 1)"
  using assms page_numeric [where l = l and E = E and docs = "users s"]
  by (simp add: getUsers_def Let_def)

lemma getPostsByAuthor_numeric:
  assumes "getPostsByAuthor L E s aid rq = Inr (aid', r)" and "lr_limit r = Num l"
  shows "1 \<le> l \<and> l \<le> 100
         \<and> int (length (lr_data r)) \<le> l
         \<and> lr_totalPages r = Num (max ((int (lr_total r) + l - 1) div l) 1)"
  using assms page_numeric [where l = l and E = E and docs = "posts s"]
  by (auto simp: getPostsByAuthor_def Let_def split: if_splits)

text \<open>
  The count and the page are taken with the same filters, those of the base scope
  and of the filter and search stages: paging and sorting add none.
\<close>

lemma getAuthors_total:
  "lr_total (getAuthors E s rq)
     = length (selected E (query (paginate 10 100 (sort_stage ''-createdAt''
                 (search_stage [''name'', ''email''] (filter_stage [''name'', ''email'']
                    (new_ApiFeatures (find_query not_deleted_scope) rq)))))) (authors s))"
  by (simp add: getAuthors_def Let_def countDocuments_def selected_def stage_filters)

text \<open>
  C6. The claim: in every list response \<open>totalPages = max(ceil(total / limit), 1)\<close>
  and \<open>data.length \<le> limit\<close>. The code at \<open>?limit=abc\<close>: the limit of the
  pagination stage is \<open>NaN\<close> (the defect of C5), so \<open>totalPages\<close> is
  \<open>Math.max(Math.ceil(total / NaN), 1) = NaN\<close> and the query runs with no numeric
  limit. Where the limit is a number the claim holds (lemmas \<open>getPosts_numeric\<close>,
  \<open>getPostsByAuthor_numeric\<close>, \<open>getAuthors_numeric\<close>, \<open>getUsers_numeric\<close>).
\<close>

theorem getPosts_limit_not_a_number:
  "lr_limit (getPosts ex_engine ex_store [(''limit'', JStr ''abc'')]) = NaN
   \<and> lr_totalPages (getPosts ex_engine ex_store [(''limit'', JStr ''abc'')]) = NaN
   \<and> lr_total (getPosts ex_engine ex_store [(''limit'', JStr ''abc'')]) = 1
   \<and> lr_data (getPosts ex_engine ex_store [(''limit'', JStr ''abc'')]) = [ex_post]"
  by code_simp

section \<open>Creating and updating posts\<close>

lemma Post_create_appends:
  "Post_create L now oid pl s = Inr (s', p) \<Longrightarrow>
   posts s' = posts s @ [p] \<and> users s' = users s \<and> authors s' = authors s
   \<and> p_status p = (case pl_status pl of None \<Rightarrow> ''draft'' | Some st \<Rightarrow> st)
   \<and> p_deletedAt p = (case pl_deletedAt pl of None \<Rightarrow> None | Some d \<Rightarrow> d)"
  by (auto simp: Post_create_def Let_def split: option.splits if_splits)

text \<open>
  C8. A payload whose status is deleted is refused by \<open>createPost\<close> with the
  \<open>AppError\<close> of status 400 and the database is unchanged. And whatever the payload,
  \<open>createPost\<close> leaves the database as it was or appends one post, whose status is not
  deleted and whose \<open>deletedAt\<close> is null.
\<close>

theorem createPost_never_deleted:
  "(pl_status d = Some ''deleted'' \<longrightarrow>
      createPost L now oid s d = (s, Inl (AppError cannot_create_deleted 400))
      \<and> errorHandler (AppError cannot_create_deleted 400) = 400)
   \<and> (fst (createPost L now oid s d) = s
       \<or> (\<exists>p. posts (fst (createPost L now oid s d)) = posts s @ [p]
              \<and> p_status p \<noteq> ''deleted'' \<and> p_deletedAt p = None))"
proof (cases "pl_status d = Some ''deleted''")
  case True
  then show ?thesis by (simp add: createPost_def)
next
  case False
  let ?p1 = "(if pl_status d = Some ''published''
                     \<and> (pl_publishedAt d = None \<or> pl_publishedAt d = Some None)
                  then d\<lparr>pl_publishedAt := Some (Some now)\<rparr> else d)"
  let ?p2 = "(if pl_status ?p1 = Some ''draft'' then ?p1\<lparr>pl_publishedAt := Some None\<rparr> else ?p1)"
  let ?p3 = "?p2\<lparr>pl_deletedAt := Some None, pl_image := Some (image_or_default (pl_image ?p2))\<rparr>"
  have st: "pl_status ?p3 = pl_status d" by simp
  have del: "pl_deletedAt ?p3 = Some None" by simp
  show ?thesis
  proof (cases "Post_create L now oid ?p3 s")
    case (Inl e)
    with False show ?thesis by (simp add: createPost_def Let_def)
  next
    case (Inr r)
    obtain s' p where r: "r = (s', p)" by (cases r)
    from Post_create_appends [OF Inr [unfolded r]] st del False
    have "posts s' = posts s @ [p]" "p_status p \<noteq> ''deleted''" "p_deletedAt p = None"
      by (auto split: option.splits)
    moreover have "fst (createPost L now oid s d) = s'"
      using False Inr r by (simp add: createPost_def Let_def)
    ultimately show ?thesis using False by auto
  qed
qed

theorem createPost_never_deleted_witness:
  "pl_status (ex_new_post ''deleted'') = Some ''deleted''
   \<and> createPost ex_libs 9 ''0000000000000000000000c2'' ex_store (ex_new_post ''deleted'')
       = (ex_store, Inl (AppError cannot_create_deleted 400))
   \<and> length (posts (fst (createPost ex_libs 9 ''0000000000000000000000c2'' ex_store
                           (ex_new_post ''published'')))) = 2"
proof -
  have d: "pl_status (ex_new_post ''deleted'') = Some ''deleted''"
    by (simp add: ex_new_post_def)
  have n: "fst (createPost ex_libs 9 ''0000000000000000000000c2'' ex_store (ex_new_post ''published''))
             \<noteq> ex_store"
    by code_simp
  have l: "length (posts ex_store) = 1" by code_simp
  from createPost_never_deleted [of "ex_new_post ''deleted''" ex_libs 9 "''0000000000000000000000c2''" ex_store] d
  have "createPost ex_libs 9 ''0000000000000000000000c2'' ex_store (ex_new_post ''deleted'')
       = (ex_store, Inl (AppError cannot_create_deleted 400))"
    by simp
  moreover
  from createPost_never_deleted [of "ex_new_post ''published''" ex_libs 9 "''0000000000000000000000c2''" ex_store] n
  obtain p where "posts (fst (createPost ex_libs 9 ''0000000000000000000000c2'' ex_store
                           (ex_new_post ''published''))) = posts ex_store @ [p]"
    by blast
  then have "length (posts (fst (createPost ex_libs 9 ''0000000000000000000000c2'' ex_store
                           (ex_new_post ''published'')))) = 2"
    using l by simp
  ultimately show ?thesis using d by simp
qed

lemma updatePost_result:
  assumes "updatePost L now s pid d = (s', Inr post)"
  shows "\<exists>p. find (\<lambda>p. p_id p = pid \<and> p_status p \<noteq> ''deleted'') (posts s) = Some p
           \<and> post = apply_payload now (update_payload now d) p
           \<and> posts s' = update_first (\<lambda>p. p_id p = pid \<and> p_status p \<noteq> ''deleted'')
                          (apply_payload now (update_payload now d)) (posts s)"
  using assms
  unfolding updatePost_def update_payload_def Let_def
  by (auto split: if_splits option.splits)

text \<open>An update that sets only the status of a post that is not deleted goes through.\<close>

lemma updatePost_succeeds:
  assumes "find (\<lambda>p. p_id p = pid \<and> p_status p \<noteq> ''deleted'') (posts s) = Some p"
    and "Post_validate_update L d"
    and "pl_slug d = None"
  shows "\<exists>s' post. updatePost L now s pid d = (s', Inr post)"
  using assms
  unfolding updatePost_def Let_def Post_validate_update_def
  by (auto split: if_splits option.splits)

text \<open>
  C7. The post an update returns is the one stored. When the payload sets the status
  to published, that post is published, its \<open>publishedAt\<close> is the time of the update
  and its \<open>deletedAt\<close> is null; when the payload sets the status to draft, its
  \<open>publishedAt\<close> is null (and so is its \<open>deletedAt\<close>). Only a post that is not
  deleted is updated (lemma \<open>updatePost_result\<close>).
\<close>

theorem updatePost_status_dates:
  assumes "updatePost L now s pid d = (s', Inr post)"
  shows "post \<in> set (posts s')
         \<and> (pl_status d = Some ''published'' \<longrightarrow>
              p_status post = ''published'' \<and> p_publishedAt post = Some now \<and> p_deletedAt post = None)
         \<and> (pl_status d = Some ''draft'' \<longrightarrow>
              p_status post = ''draft'' \<and> p_publishedAt post = None \<and> p_deletedAt post = None)"
proof -
  from updatePost_result [OF assms] obtain p where
    f: "find (\<lambda>p. p_id p = pid \<and> p_status p \<noteq> ''deleted'') (posts s) = Some p"
    and post: "post = apply_payload now (update_payload now d) p"
    and s': "posts s' = update_first (\<lambda>p. p_id p = pid \<and> p_status p \<noteq> ''deleted'')
                          (apply_payload now (update_payload now d)) (posts s)"
    by blast
  have "post \<in> set (posts s')"
    unfolding post s' by (rule update_first_mem [OF f])
  moreover have "pl_status d = Some ''published'' \<Longrightarrow>
      p_status post = ''published'' \<and> p_publishedAt post = Some now \<and> p_deletedAt post = None"
    by (simp add: post apply_payload_def update_payload_def)
  moreover have "pl_status d = Some ''draft'' \<Longrightarrow>
      p_status post = ''draft'' \<and> p_publishedAt post = None \<and> p_deletedAt post = None"
    by (simp add: post apply_payload_def update_payload_def)
  ultimately show ?thesis by blast
qed

text \<open>The draft of the example is published at time 9 and made a draft again at time 12.\<close>

theorem updatePost_status_dates_witness:
  "updatePost ex_libs 9 ex_store ''0000000000000000000000c1'' (ex_status_only ''published'')
     = (ex_store\<lparr>posts := [ex_post\<lparr>p_status := ''published'', p_publishedAt := Some 9,
                                   p_updatedAt := 9\<rparr>]\<rparr>,
        Inr (ex_post\<lparr>p_status := ''published'', p_publishedAt := Some 9, p_updatedAt := 9\<rparr>))
   \<and> p_publishedAt (ex_post\<lparr>p_status := ''published'', p_publishedAt := Some 9, p_updatedAt := 9\<rparr>)
       = Some 9
   \<and> updatePost ex_libs 12
       (ex_store\<lparr>posts := [ex_post\<lparr>p_status := ''published'', p_publishedAt := Some 9,
                                   p_updatedAt := 9\<rparr>]\<rparr>)
       ''0000000000000000000000c1'' (ex_status_only ''draft'')
     = (ex_store\<lparr>posts := [ex_post\<lparr>p_updatedAt := 12\<rparr>]\<rparr>, Inr (ex_post\<lparr>p_updatedAt := 12\<rparr>))
   \<and> p_publishedAt (ex_post\<lparr>p_updatedAt := 12\<rparr>) = None"
proof -
  have u1: "updatePost ex_libs 9 ex_store ''0000000000000000000000c1'' (ex_status_only ''published'')
     = (ex_store\<lparr>posts := [ex_post\<lparr>p_status := ''published'', p_publishedAt := Some 9,
                                   p_updatedAt := 9\<rparr>]\<rparr>,
        Inr (ex_post\<lparr>p_status := ''published'', p_publishedAt := Some 9, p_updatedAt := 9\<rparr>))"
    by code_simp
  have u2: "updatePost ex_libs 12
       (ex_store\<lparr>posts := [ex_post\<lparr>p_status := ''published'', p_publishedAt := Some 9,
                                   p_updatedAt := 9\<rparr>]\<rparr>)
       ''0000000000000000000000c1'' (ex_status_only ''draft'')
     = (ex_store\<lparr>posts := [ex_post\<lparr>p_updatedAt := 12\<rparr>]\<rparr>, Inr (ex_post\<lparr>p_updatedAt := 12\<rparr>))"
    by code_simp
  have s1: "pl_status (ex_status_only ''published'') = Some ''published''"
    and s2: "pl_status (ex_status_only ''draft'') = Some ''draft''"
    by (simp_all add: ex_status_only_def)
  from updatePost_status_dates [OF u1] s1
  have "p_publishedAt (ex_post\<lparr>p_status := ''published'', p_publishedAt := Some 9, p_updatedAt := 9\<rparr>)
       = Some 9"
    by blast
  moreover from updatePost_status_dates [OF u2] s2
  have "p_publishedAt (ex_post\<lparr>p_updatedAt := 12\<rparr>) = None"
    by blast
  ultimately show ?thesis using u1 u2 by simp
qed

section \<open>Roles\<close>

text \<open>
  C9. For a request that \<open>protect\<close> lets through with the identity \<open>u\<close>: when the
  role of \<open>u\<close> is admin, \<open>superAdminOnly\<close> refuses with 403, so the user list answers
  Forbidden, while \<open>adminOnly\<close> passes, so that creating an author goes on to the
  validation and the controller and is not refused by the guard; when the role is
  super_admin, both checks pass.
\<close>

theorem admin_and_super_admin_tiers:
  fixes req1 :: "'a request" and req2 :: "author_data request"
  assumes "protect L ev now req1 = Inr r1"
    and "req_user r1 = Some u"
    and "authorization req2 = authorization req1"
  shows "(role u = ''admin'' \<longrightarrow>
            superAdminOnly r1 = Inl (AppError ''Forbidden (super admin only)'' 403)
            \<and> adminOnly r1 = Inr r1
            \<and> route_getUsers L ev now E s req1 = (s, Inl (AppError ''Forbidden (super admin only)'' 403))
            \<and> errorHandler (AppError ''Forbidden (super admin only)'' 403) = 403
            \<and> route_createAuthor L ev now oid s req2
                = run_mw s (validate (createAuthorSchema L) (req2\<lparr>req_user := Some u\<rparr>))
                    (\<lambda>r3. createAuthor now oid s (body r3))
            \<and> \<not> denied (snd (route_createAuthor L ev now oid s req2)))
       \<and> (role u = ''super_admin'' \<longrightarrow>
            superAdminOnly r1 = Inr r1
            \<and> adminOnly r1 = Inr r1
            \<and> route_getUsers L ev now E s req1 = (s, Inr (getUsers E s r1))
            \<and> route_createAuthor L ev now oid s req2
                = run_mw s (validate (createAuthorSchema L) (req2\<lparr>req_user := Some u\<rparr>))
                    (\<lambda>r3. createAuthor now oid s (body r3))
            \<and> \<not> denied (snd (route_createAuthor L ev now oid s req2)))"
proof -
  have p2: "protect L ev now req2 = Inr (req2\<lparr>req_user := Some u\<rparr>)"
    using protect_same_header_Inr [OF assms(3) [symmetric] assms(1)] assms(2) by simp
  have nd: "\<not> denied (snd (run_mw s (validate (createAuthorSchema L) (req2\<lparr>req_user := Some u\<rparr>))
                    (\<lambda>r3. createAuthor now oid s (body r3))))"
    by (rule not_denied_validate) (rule not_denied_createAuthor)
  have a: "role u = ''admin'' \<or> role u = ''super_admin'' \<Longrightarrow>
       route_createAuthor L ev now oid s req2
                = run_mw s (validate (createAuthorSchema L) (req2\<lparr>req_user := Some u\<rparr>))
                    (\<lambda>r3. createAuthor now oid s (body r3))"
    by (auto simp add: route_createAuthor_def p2 adminOnly_cases)
  show ?thesis
    using assms(1,2) a nd
    by (auto simp: route_getUsers_def superAdminOnly_cases adminOnly_cases)
qed

text \<open>Ann's token, role admin: the user list is forbidden, the author is created.\<close>

theorem admin_and_super_admin_tiers_witness:
  "protect ex_libs ex_env 9 (ex_request ex_admin_token [] ())
     = Inr ((ex_request ex_admin_token [] ())
              \<lparr>req_user := Some \<lparr>userId = ''0000000000000000000000a1'', role = ''admin''\<rparr>\<rparr>)
   \<and> route_getUsers ex_libs ex_env 9 ex_user_engine ex_store (ex_request ex_admin_token [] ())
       = (ex_store, Inl (AppError ''Forbidden (super admin only)'' 403))
   \<and> \<not> denied (snd (route_createAuthor ex_libs ex_env 9 ''0000000000000000000000b2'' ex_store
                      (ex_request ex_admin_token [] ex_jane)))
   \<and> length (authors (fst (route_createAuthor ex_libs ex_env 9 ''0000000000000000000000b2'' ex_store
                             (ex_request ex_admin_token [] ex_jane)))) = 2
   \<and> route_getUsers ex_libs ex_env 9 ex_user_engine ex_store (ex_request ex_super_token [] ())
       = (ex_store,
          Inr (getUsers ex_user_engine ex_store
                 ((ex_request ex_super_token [] ())
                    \<lparr>req_user := Some \<lparr>userId = ''0000000000000000000000a3'', role = ''super_admin''\<rparr>\<rparr>)))"
proof -
  have p: "protect ex_libs ex_env 9 (ex_request ex_admin_token [] ())
     = Inr ((ex_request ex_admin_token [] ())
              \<lparr>req_user := Some \<lparr>userId = ''0000000000000000000000a1'', role = ''admin''\<rparr>\<rparr>)"
    by code_simp
  have u: "req_user ((ex_request ex_admin_token [] ())
              \<lparr>req_user := Some \<lparr>userId = ''0000000000000000000000a1'', role = ''admin''\<rparr>\<rparr>)
             = Some \<lparr>userId = ''0000000000000000000000a1'', role = ''admin''\<rparr>"
    by simp
  have h: "authorization (ex_request ex_admin_token [] ex_jane)
             = authorization (ex_request ex_admin_token [] ())"
    by (simp add: ex_request_def)
  have q: "protect ex_libs ex_env 9 (ex_request ex_super_token [] ())
     = Inr ((ex_request ex_super_token [] ())
              \<lparr>req_user := Some \<lparr>userId = ''0000000000000000000000a3'', role = ''super_admin''\<rparr>\<rparr>)"
    by code_simp
  have v: "req_user ((ex_request ex_super_token [] ())
              \<lparr>req_user := Some \<lparr>userId = ''0000000000000000000000a3'', role = ''super_admin''\<rparr>\<rparr>)
             = Some \<lparr>userId = ''0000000000000000000000a3'', role = ''super_admin''\<rparr>"
    by simp
  have k: "authorization (ex_request ex_super_token [] ex_jane)
             = authorization (ex_request ex_super_token [] ())"
    by (simp add: ex_request_def)
  have c: "length (authors (fst (route_createAuthor ex_libs ex_env 9 ''0000000000000000000000b2'' ex_store
                             (ex_request ex_admin_token [] ex_jane)))) = 2"
    by code_simp
  have ra: "role \<lparr>userId = ''0000000000000000000000a1'', role = ''admin''\<rparr> = ''admin''"
    and rs: "role \<lparr>userId = ''0000000000000000000000a3'', role = ''super_admin''\<rparr> = ''super_admin''"
    by simp_all
  from admin_and_super_admin_tiers [OF p u h, of ex_user_engine ex_store "''0000000000000000000000b2''"] ra
  have "route_getUsers ex_libs ex_env 9 ex_user_engine ex_store (ex_request ex_admin_token [] ())
       = (ex_store, Inl (AppError ''Forbidden (super admin only)'' 403))
     \<and> \<not> denied (snd (route_createAuthor ex_libs ex_env 9 ''0000000000000000000000b2'' ex_store
                      (ex_request ex_admin_token [] ex_jane)))"
    by blast
  moreover
  from admin_and_super_admin_tiers [OF q v k, of ex_user_engine ex_store "''0000000000000000000000b2''"] rs
  have "route_getUsers ex_libs ex_env 9 ex_user_engine ex_store (ex_request ex_super_token [] ())
       = (ex_store,
          Inr (getUsers ex_user_engine ex_store
                 ((ex_request ex_super_token [] ())
                    \<lparr>req_user := Some \<lparr>userId = ''0000000000000000000000a3'', role = ''super_admin''\<rparr>\<rparr>)))"
    by blast
  ultimately show ?thesis using p c by blast
qed

section \<open>The guard and the database\<close>

text \<open>
  C10. Two requests with the same \<open>Authorization\<close> header, checked with the same key
  at the same time, get the same answer from \<open>protect\<close> (the same identity or the
  same refusal), from \<open>protect\<close> followed by \<open>adminOnly\<close> and from \<open>protect\<close>
  followed by \<open>superAdminOnly\<close>, whatever else the requests hold; and the guarded
  routes refuse the one (401 or 403) exactly when they refuse the other, whatever the
  two databases hold. So a user's deactivation or change of role leaves the answers
  to an issued token as they were.
\<close>

theorem access_decided_by_header_and_key:
  fixes r1 :: "'a request" and r2 :: "'b request"
  assumes "authorization r1 = authorization r2"
  shows "map_sum id req_user (protect L ev now r1) = map_sum id req_user (protect L ev now r2)
    \<and> map_sum id req_user (case protect L ev now r1 of Inl e \<Rightarrow> Inl e | Inr x \<Rightarrow> adminOnly x)
         = map_sum id req_user (case protect L ev now r2 of Inl e \<Rightarrow> Inl e | Inr x \<Rightarrow> adminOnly x)
    \<and> map_sum id req_user (case protect L ev now r1 of Inl e \<Rightarrow> Inl e | Inr x \<Rightarrow> superAdminOnly x)
         = map_sum id req_user (case protect L ev now r2 of Inl e \<Rightarrow> Inl e | Inr x \<Rightarrow> superAdminOnly x)
    \<and> denied (snd (route_getUsers L ev now E1 s1 r1)) = denied (snd (route_getUsers L ev now E2 s2 r2))
    \<and> denied (snd (route_deactivateUser L ev now s1 r1)) = denied (snd (route_deactivateUser L ev now s2 r2))
    \<and> denied (snd (route_deleteAuthor L ev now s1 r1)) = denied (snd (route_deleteAuthor L ev now s2 r2))
    \<and> denied (snd (route_deletePost L ev now s1 r1)) = denied (snd (route_deletePost L ev now s2 r2))"
  using guards_same_header [OF assms, of L ev now] guard_case_eq [OF assms, of L ev now]
  by (simp only: guard_outcome_getUsers guard_outcome_deactivateUser guard_outcome_deleteAuthor
        guard_outcome_deletePost simp_thms)

text \<open>
  Ann's token before and after Ann is deactivated and her stored role is changed:
  the identity is the same and deleting a post is not refused by the guard, before
  or after.
\<close>

theorem access_decided_by_header_and_key_witness:
  "u_isActive (users (fst (updateUserRole 8
       (fst (deactivateUser 7 ex_store (ex_request ex_super_token ''0000000000000000000000a1'' ())))
       (ex_request ex_super_token ''0000000000000000000000a1'' ''super_admin''))) ! 0) = False
   \<and> map_sum id req_user
       (protect ex_libs ex_env 9 (ex_request ex_admin_token ''0000000000000000000000c1'' ()))
       = Inr (Some \<lparr>userId = ''0000000000000000000000a1'', role = ''admin''\<rparr>)
   \<and> denied (snd (route_deletePost ex_libs ex_env 9
        (fst (updateUserRole 8
           (fst (deactivateUser 7 ex_store (ex_request ex_super_token ''0000000000000000000000a1'' ())))
           (ex_request ex_super_token ''0000000000000000000000a1'' ''super_admin'')))
        (ex_request ex_admin_token ''0000000000000000000000c1'' ''x''))) = False"
proof -
  have h: "authorization (ex_request ex_admin_token ''0000000000000000000000c1'' ())
             = authorization (ex_request ex_admin_token ''0000000000000000000000c1'' ''x'')"
    by (simp add: ex_request_def)
  have d: "u_isActive (users (fst (updateUserRole 8
       (fst (deactivateUser 7 ex_store (ex_request ex_super_token ''0000000000000000000000a1'' ())))
       (ex_request ex_super_token ''0000000000000000000000a1'' ''super_admin''))) ! 0) = False"
    by code_simp
  have p: "map_sum id req_user
       (protect ex_libs ex_env 9 (ex_request ex_admin_token ''0000000000000000000000c1'' ()))
       = Inr (Some \<lparr>userId = ''0000000000000000000000a1'', role = ''admin''\<rparr>)"
    by code_simp
  have b: "denied (snd (route_deletePost ex_libs ex_env 9 ex_store
             (ex_request ex_admin_token ''0000000000000000000000c1'' ()))) = False"
    by code_simp
  from access_decided_by_header_and_key [OF h, of ex_libs ex_env 9 ex_user_engine ex_store
      ex_user_engine
      "fst (updateUserRole 8
           (fst (deactivateUser 7 ex_store (ex_request ex_super_token ''0000000000000000000000a1'' ())))
           (ex_request ex_super_token ''0000000000000000000000a1'' ''super_admin''))"] b
  have "denied (snd (route_deletePost ex_libs ex_env 9
        (fst (updateUserRole 8
           (fst (deactivateUser 7 ex_store (ex_request ex_super_token ''0000000000000000000000a1'' ())))
           (ex_request ex_super_token ''0000000000000000000000a1'' ''super_admin'')))
        (ex_request ex_admin_token ''0000000000000000000000c1'' ''x''))) = False"
    by simp
  with d p show ?thesis by simp
qed

end
